theory Spec2Isabelle
  imports Complex_Main
begin

section \<open>The Python runtime the scripts rely on\<close>

text \<open>
  The two scripts \<^verbatim>\<open>export_waypoints_day3.py\<close> and
  \<^verbatim>\<open>export_waypoints_day3_backup.py\<close> compute with Python floats, which are IEEE
  doubles. A finite float is the real number it denotes. What double arithmetic adds
  to exact arithmetic is kept apart, in a \<open>float_runtime\<close>:
  \<^item> \<open>rounded x\<close> is the float an operation \<^verbatim>\<open>+\<close>, \<^verbatim>\<open>-\<close>, \<^verbatim>\<open>*\<close> or \<^verbatim>\<open>/\<close> returns when
    its exact result is \<open>x\<close>;
  \<^item> \<open>floor_quotient x y\<close> is the value of \<^verbatim>\<open>x // y\<close> for a divisor other than 0: the
    floor of the quotient where the runtime computes it exactly, a neighbouring float
    where the quotient is large, and an infinity beyond the range of the floats.
  The faults of the library functions and operators the scripts call are values of
  the type \<open>py_error\<close>. The special value nan is not modelled.
\<close>

datatype py_error = ZeroDivisionError | ValueError | OverflowError

datatype pyfloat = Finite real | Infinite

record float_runtime =
  rounded :: "real \<Rightarrow> real"
  floor_quotient :: "real \<Rightarrow> real \<Rightarrow> pyfloat"

text \<open>
  Rounding to the nearest double returns an infinity from \<open>2 ^ 1024 - 2 ^ 970\<close> on.
\<close>

definition float_overflow :: real where
  "float_overflow = 2 ^ 1024 - 2 ^ 970"

text \<open>The floor quotient computed exactly, up to the range of the floats.\<close>

definition ideal_floor_quotient :: "real \<Rightarrow> real \<Rightarrow> pyfloat" where
  "ideal_floor_quotient x y =
     (if float_overflow \<le> \<bar>x / y\<bar> then Infinite else Finite (of_int \<lfloor>x / y\<rfloor>))"

text \<open>Exact arithmetic: no operation rounds.\<close>

definition exact_runtime :: float_runtime where
  "exact_runtime = \<lparr>rounded = (\<lambda>x. x), floor_quotient = ideal_floor_quotient\<rparr>"

text \<open>
  Rounding to the nearest double, ties to the even significand, for the doubles of the
  normal range: a double there has a significand of 53 bits, so the spacing of the
  doubles around \<open>x\<close> is \<open>2\<close> to the power \<open>floor (log 2 \<bar>x\<bar>) - 52\<close>. Subnormal
  doubles and the overflow of a rounded result are not followed.
\<close>

definition round_even :: "real \<Rightarrow> int" where
  "round_even y =
     (let k = \<lfloor>y\<rfloor>; r = y - of_int k
      in if r < 1 / 2 then k
         else if 1 / 2 < r then k + 1
         else if even k then k else k + 1)"

definition round_double :: "real \<Rightarrow> real" where
  "round_double x =
     (if x = 0 then 0
      else (let u = 2 powr (of_int \<lfloor>log 2 \<bar>x\<bar>\<rfloor> - 52)
            in of_int (round_even (x / u)) * u))"

text \<open>
  Double arithmetic: every operation rounds to the nearest double. The floor quotient
  is the ideal one, which is what the runtime returns for small quotients such as
  those of the concrete flights below.
\<close>

definition double_runtime :: float_runtime where
  "double_runtime = \<lparr>rounded = round_double, floor_quotient = ideal_floor_quotient\<rparr>"

text \<open>The doubles that the literals \<^verbatim>\<open>0.7\<close> and \<^verbatim>\<open>0.1\<close> denote.\<close>

definition double_0_7 :: real where
  "double_0_7 = 3152519739159347 / 2 ^ 52"

definition double_0_1 :: real where
  "double_0_1 = 3602879701896397 / 2 ^ 55"

text \<open>
  What the theorems below require of a rounding: it is monotone, and 0 and 1 are
  floats, which it leaves as they are. Rounding to the nearest double is of this
  kind.
\<close>

definition float_rounding :: "(real \<Rightarrow> real) \<Rightarrow> bool" where
  "float_rounding rnd \<longleftrightarrow> (\<forall>x y. x \<le> y \<longrightarrow> rnd x \<le> rnd y) \<and> rnd 0 = 0 \<and> rnd 1 = 1"

text \<open>\<^verbatim>\<open>math.radians(x)\<close>: degrees to radians.\<close>

definition radians :: "real \<Rightarrow> real" where
  "radians x = x * pi / 180"

text \<open>\<^verbatim>\<open>math.sqrt(x)\<close> raises ValueError on a negative argument.\<close>

definition py_sqrt :: "real \<Rightarrow> py_error + real" where
  "py_sqrt x = (if x < 0 then Inl ValueError else Inr (sqrt x))"

text \<open>\<^verbatim>\<open>math.asin(x)\<close> raises ValueError outside the interval from -1 to 1.\<close>

definition py_asin :: "real \<Rightarrow> py_error + real" where
  "py_asin x = (if x < - 1 \<or> 1 < x then Inl ValueError else Inr (arcsin x))"

text \<open>
  \<^verbatim>\<open>math.atan2(y, x)\<close>: the angle of the point \<open>(x, y)\<close>, in the interval from
  \<open>- pi\<close> to \<open>pi\<close>; it is defined everywhere, and 0 at the origin.
\<close>

definition atan2 :: "real \<Rightarrow> real \<Rightarrow> real" where
  "atan2 y x =
     (if 0 < x then arctan (y / x)
      else if x < 0 then (if 0 \<le> y then arctan (y / x) + pi else arctan (y / x) - pi)
      else if 0 < y then pi / 2
      else if y < 0 then - (pi / 2)
      else 0)"

text \<open>
  \<^verbatim>\<open>x // y\<close> on floats: a zero divisor raises ZeroDivisionError; otherwise the result
  is the floor quotient of the runtime, which can be an infinity.
\<close>

definition py_floordiv :: "float_runtime \<Rightarrow> real \<Rightarrow> real \<Rightarrow> py_error + pyfloat" where
  "py_floordiv rt x y =
     (if y = 0 then Inl ZeroDivisionError else Inr (floor_quotient rt x y))"

text \<open>
  \<^verbatim>\<open>int(x)\<close> on a float truncates towards zero, and raises OverflowError on an
  infinity.
\<close>

definition py_int :: "pyfloat \<Rightarrow> py_error + int" where
  "py_int q =
     (case q of
        Infinite \<Rightarrow> Inl OverflowError
      | Finite x \<Rightarrow> Inr (if 0 \<le> x then \<lfloor>x\<rfloor> else \<lceil>x\<rceil>))"

text \<open>
  \<^verbatim>\<open>i / n\<close> on two ints: true division, rounded to a float; a zero divisor raises
  ZeroDivisionError.
\<close>

definition py_truediv :: "float_runtime \<Rightarrow> int \<Rightarrow> int \<Rightarrow> py_error + real" where
  "py_truediv rt i n =
     (if n = 0 then Inl ZeroDivisionError else Inr (rounded rt (of_int i / of_int n)))"

text \<open>\<^verbatim>\<open>range(n)\<close>: the ints from 0 up to \<open>n - 1\<close>, none when \<open>n \<le> 0\<close>.\<close>

definition py_range :: "int \<Rightarrow> int list" where
  "py_range n = [0..n - 1]"

text \<open>\<^verbatim>\<open>str\<close> of a non-negative int, and of any int: its decimal digits.\<close>

fun str_nat :: "nat \<Rightarrow> string" where
  "str_nat n =
     (if n < 10 then [''0123456789'' ! n]
      else str_nat (n div 10) @ [''0123456789'' ! (n mod 10)])"

definition str_int :: "int \<Rightarrow> string" where
  "str_int k = (if k < 0 then ''-'' @ str_nat (nat (- k)) else str_nat (nat k))"

abbreviation TAB :: char where
  "TAB \<equiv> CHR 0x09"

abbreviation NL :: char where
  "NL \<equiv> CHR 0x0A"

section \<open>Distance calculator\<close>

text \<open>
  The two \<^verbatim>\<open>haversine_distance\<close> functions are read in exact arithmetic: the sines,
  cosines, square roots and inverse functions are the mathematical ones. The float
  functions differ from these readings by the rounding of the platform's mathematical
  library, which also lets them raise ValueError where the readings return (near
  antipodal points the float \<open>a\<close> can exceed 1). The waypoint generator below
  therefore takes its distance calculator as a parameter.

  \<^verbatim>\<open>haversine_distance\<close> of \<^verbatim>\<open>export_waypoints_day3.py\<close>: the atan2 formulation.
  The two square roots are taken in the order the source evaluates them.
\<close>

definition haversine_a :: "real \<Rightarrow> real \<Rightarrow> real \<Rightarrow> real \<Rightarrow> real" where
  "haversine_a lat1 lon1 lat2 lon2 =
     (let phi1 = radians lat1; phi2 = radians lat2;
          dphi = radians (lat2 - lat1);
          dlambda = radians (lon2 - lon1)
      in (sin (dphi / 2))\<^sup>2 + cos phi1 * cos phi2 * (sin (dlambda / 2))\<^sup>2)"

definition haversine_distance :: "real \<Rightarrow> real \<Rightarrow> real \<Rightarrow> real \<Rightarrow> py_error + real" where
  "haversine_distance lat1 lon1 lat2 lon2 =
     (let R = 6371000;
          a = haversine_a lat1 lon1 lat2 lon2
      in case py_sqrt a of
           Inl e \<Rightarrow> Inl e
         | Inr sa \<Rightarrow>
             (case py_sqrt (1 - a) of
                Inl e \<Rightarrow> Inl e
              | Inr sb \<Rightarrow> Inr (R * (2 * atan2 sa sb))))"

text \<open>
  \<^verbatim>\<open>haversine_distance\<close> of \<^verbatim>\<open>export_waypoints_day3_backup.py\<close>: the asin
  formulation. It computes the same quantity \<open>a\<close> from
  \<^verbatim>\<open>dlat = radians(lat2 - lat1)\<close>, \<^verbatim>\<open>dlon = radians(lon2 - lon1)\<close>,
  \<^verbatim>\<open>radians(lat1)\<close> and \<^verbatim>\<open>radians(lat2)\<close>.
\<close>

definition haversine_a_backup :: "real \<Rightarrow> real \<Rightarrow> real \<Rightarrow> real \<Rightarrow> real" where
  "haversine_a_backup lat1 lon1 lat2 lon2 =
     (let dlat = radians (lat2 - lat1);
          dlon = radians (lon2 - lon1)
      in (sin (dlat / 2))\<^sup>2
           + cos (radians lat1) * cos (radians lat2) * (sin (dlon / 2))\<^sup>2)"

definition haversine_distance_backup :: "real \<Rightarrow> real \<Rightarrow> real \<Rightarrow> real \<Rightarrow> py_error + real" where
  "haversine_distance_backup lat1 lon1 lat2 lon2 =
     (let R = 6371000;
          a = haversine_a_backup lat1 lon1 lat2 lon2
      in case py_sqrt a of
           Inl e \<Rightarrow> Inl e
         | Inr sa \<Rightarrow>
             (case py_asin sa of
                Inl e \<Rightarrow> Inl e
              | Inr t \<Rightarrow> Inr (2 * R * t)))"

section \<open>Waypoint generator\<close>

type_synonym coordinate = "real \<times> real"

type_synonym waypoint = "real \<times> real \<times> int"

type_synonym distance_calculator = "real \<Rightarrow> real \<Rightarrow> real \<Rightarrow> real \<Rightarrow> py_error + real"

text \<open>
  The expression \<^verbatim>\<open>a + (b - a) * f\<close> of the loop body, on floats: each of its three
  operations rounds its result.
\<close>

definition blend :: "float_runtime \<Rightarrow> real \<Rightarrow> real \<Rightarrow> real \<Rightarrow> real" where
  "blend rt a b f = rounded rt (a + rounded rt (rounded rt (b - a) * f))"

text \<open>
  The body of the \<^verbatim>\<open>for i in range(num_points + 1)\<close> loop of
  \<^verbatim>\<open>generate_waypoints\<close>, over the indices still to visit, with the list built so
  far. The division \<^verbatim>\<open>i / num_points\<close> is the first statement of the body.
\<close>

fun waypoints_loop ::
  "float_runtime \<Rightarrow> real \<Rightarrow> real \<Rightarrow> real \<Rightarrow> real \<Rightarrow> int \<Rightarrow> int list \<Rightarrow> waypoint list
     \<Rightarrow> py_error + waypoint list"
where
  "waypoints_loop rt lat1 lon1 lat2 lon2 num_points [] waypoints = Inr waypoints"
| "waypoints_loop rt lat1 lon1 lat2 lon2 num_points (i # rest) waypoints =
     (case py_truediv rt i num_points of
        Inl e \<Rightarrow> Inl e
      | Inr f \<Rightarrow>
          (let lat = blend rt lat1 lat2 f;
               lon = blend rt lon1 lon2 f
           in waypoints_loop rt lat1 lon1 lat2 lon2 num_points rest
                (waypoints @ [(lat, lon, 100)])))"

text \<open>
  \<^verbatim>\<open>generate_waypoints\<close> on a float runtime \<open>rt\<close>, with the distance calculator
  \<open>distance_fn\<close> it calls.
\<close>

definition generate_waypoints_on ::
  "float_runtime \<Rightarrow> distance_calculator \<Rightarrow> coordinate \<Rightarrow> coordinate \<Rightarrow> real
     \<Rightarrow> py_error + waypoint list"
where
  "generate_waypoints_on rt distance_fn start end spacing =
     (case start of (lat1, lon1) \<Rightarrow>
      case end of (lat2, lon2) \<Rightarrow>
      case distance_fn lat1 lon1 lat2 lon2 of
        Inl e \<Rightarrow> Inl e
      | Inr distance \<Rightarrow>
          (case py_floordiv rt distance spacing of
             Inl e \<Rightarrow> Inl e
           | Inr q \<Rightarrow>
               (case py_int q of
                  Inl e \<Rightarrow> Inl e
                | Inr num_points \<Rightarrow>
                    waypoints_loop rt lat1 lon1 lat2 lon2 num_points
                      (py_range (num_points + 1)) [])))"

text \<open>
  \<^verbatim>\<open>generate_waypoints\<close> in exact arithmetic, with the atan2 formulation of its own
  script as distance calculator.
\<close>

definition generate_waypoints :: "coordinate \<Rightarrow> coordinate \<Rightarrow> real \<Rightarrow> py_error + waypoint list" where
  "generate_waypoints start end spacing =
     generate_waypoints_on exact_runtime haversine_distance start end spacing"

text \<open>
  The waypoint the loop body appends at index \<open>i\<close> when \<open>num_points\<close> is not 0;
  the lemmas below describe the loop with it.
\<close>

definition waypoint_at ::
  "float_runtime \<Rightarrow> real \<Rightarrow> real \<Rightarrow> real \<Rightarrow> real \<Rightarrow> int \<Rightarrow> int \<Rightarrow> waypoint"
where
  "waypoint_at rt lat1 lon1 lat2 lon2 num_points i =
     (blend rt lat1 lat2 (rounded rt (of_int i / of_int num_points)),
      blend rt lon1 lon2 (rounded rt (of_int i / of_int num_points)), 100)"

section \<open>File exporter\<close>

text \<open>
  The file is the text written to it so far; \<^verbatim>\<open>open(filename, "w")\<close> starts from the
  empty text and \<^verbatim>\<open>f.write(s)\<close> appends \<open>s\<close>. The text Python's \<^verbatim>\<open>str\<close> gives for
  a float is a parameter \<open>fstr\<close> of the exporters; the index and the altitude are ints.
  The message printed on the terminal after the file is closed is not part of the file.
\<close>

definition fwrite :: "string \<Rightarrow> string \<Rightarrow> string" where
  "fwrite f s = f @ s"

definition waypoint_record :: "(real \<Rightarrow> string) \<Rightarrow> nat \<Rightarrow> waypoint \<Rightarrow> string" where
  "waypoint_record fstr i w =
     (case w of (lat, lon, alt) \<Rightarrow>
        str_nat i @ [TAB] @ ''0'' @ [TAB] @ ''3'' @ [TAB] @ ''16'' @ [TAB] @ ''0'' @ [TAB]
          @ ''0'' @ [TAB] @ ''0'' @ [TAB] @ ''0'' @ [TAB] @ fstr lat @ [TAB] @ fstr lon @ [TAB]
          @ str_int alt @ [TAB] @ ''1'' @ [NL])"

text \<open>
  The loop \<^verbatim>\<open>for i, (lat, lon, alt) in enumerate(waypoints)\<close> of both exporters: the
  next index, the waypoints still to write and the file.
\<close>

fun export_loop :: "(real \<Rightarrow> string) \<Rightarrow> nat \<Rightarrow> waypoint list \<Rightarrow> string \<Rightarrow> string" where
  "export_loop fstr i [] f = f"
| "export_loop fstr i (w # rest) f =
     export_loop fstr (Suc i) rest (fwrite f (waypoint_record fstr i w))"

text \<open>\<^verbatim>\<open>export_to_missionplanner\<close> of \<^verbatim>\<open>export_waypoints_day3.py\<close>.\<close>

definition export_to_missionplanner :: "(real \<Rightarrow> string) \<Rightarrow> waypoint list \<Rightarrow> string" where
  "export_to_missionplanner fstr waypoints =
     export_loop fstr 0 waypoints (fwrite [] (''QGC WPL 110'' @ [NL]))"

text \<open>
  \<^verbatim>\<open>export_waypoints\<close> of \<^verbatim>\<open>export_waypoints_day3_backup.py\<close>: the same loop, with
  the record bound to the variable \<^verbatim>\<open>line\<close> before it is written.
\<close>

fun export_loop_backup :: "(real \<Rightarrow> string) \<Rightarrow> nat \<Rightarrow> waypoint list \<Rightarrow> string \<Rightarrow> string" where
  "export_loop_backup fstr i [] f = f"
| "export_loop_backup fstr i (w # rest) f =
     (let line = waypoint_record fstr i w
      in export_loop_backup fstr (Suc i) rest (fwrite f line))"

definition export_waypoints :: "(real \<Rightarrow> string) \<Rightarrow> waypoint list \<Rightarrow> string" where
  "export_waypoints fstr waypoints =
     export_loop_backup fstr 0 waypoints (fwrite [] (''QGC WPL 110'' @ [NL]))"

subsection \<open>The file format as the specification words it\<close>

text \<open>
  The specification gives the format of the mission file as: first line the literal
  \<^verbatim>\<open>QGC WPL 110\<close>; each subsequent line the 12 tab-separated fields
  index, 0, 3, 16, 0, 0, 0, 0, lat, lon, alt, 1. \<open>join_tab\<close> separates fields by tabs,
  \<open>record_fields\<close> are the 12 fields of the waypoint at position \<open>i\<close>, and
  \<open>mission_lines\<close> are the lines of the file the specification describes.
\<close>

fun join_tab :: "string list \<Rightarrow> string" where
  "join_tab [] = []"
| "join_tab [x] = x"
| "join_tab (x # y # rest) = x @ [TAB] @ join_tab (y # rest)"

definition record_fields :: "(real \<Rightarrow> string) \<Rightarrow> nat \<Rightarrow> waypoint \<Rightarrow> string list" where
  "record_fields fstr i w =
     (case w of (lat, lon, alt) \<Rightarrow>
        [str_nat i, ''0'', ''3'', ''16'', ''0'', ''0'', ''0'', ''0'',
         fstr lat, fstr lon, str_int alt, ''1''])"

definition mission_lines :: "(real \<Rightarrow> string) \<Rightarrow> waypoint list \<Rightarrow> string list" where
  "mission_lines fstr waypoints =
     ''QGC WPL 110''
       # map (\<lambda>i. join_tab (record_fields fstr i (waypoints ! i))) [0..<length waypoints]"

text \<open>
  The lines of a text: a line ends at each newline character, and text after the last
  newline is a line of its own. \<open>file_lines_from cur text\<close> has read \<open>cur\<close> of the
  current line.
\<close>

fun file_lines_from :: "string \<Rightarrow> string \<Rightarrow> string list" where
  "file_lines_from cur [] = (if cur = [] then [] else [cur])"
| "file_lines_from cur (c # cs) =
     (if c = NL then cur # file_lines_from [] cs else file_lines_from (cur @ [c]) cs)"

definition file_lines :: "string \<Rightarrow> string list" where
  "file_lines text = file_lines_from [] text"

text \<open>
  The text of a float holds no newline character. As that text is a parameter here,
  this is required of it at the latitudes and longitudes of the list.
\<close>

definition newline_free :: "(real \<Rightarrow> string) \<Rightarrow> waypoint list \<Rightarrow> bool" where
  "newline_free fstr waypoints =
     list_all (\<lambda>(lat, lon, alt). NL \<notin> set (fstr lat) \<and> NL \<notin> set (fstr lon)) waypoints"

section \<open>Properties of the float runtime\<close>

subsection \<open>Rounding to the nearest integer, ties to even\<close>

lemma round_even_of_int: "round_even (of_int m) = m"
  by (simp add: round_even_def)

lemma round_even_range: "\<lfloor>y\<rfloor> \<le> round_even y \<and> round_even y \<le> \<lfloor>y\<rfloor> + 1"
  by (simp add: round_even_def Let_def)

lemma round_even_mono:
  assumes "y \<le> z"
  shows "round_even y \<le> round_even z"
proof (cases "\<lfloor>y\<rfloor> < \<lfloor>z\<rfloor>")
  case True
  have "round_even y \<le> \<lfloor>y\<rfloor> + 1" using round_even_range [of y] by simp
  also have "\<dots> \<le> \<lfloor>z\<rfloor>" using True by simp
  also have "\<dots> \<le> round_even z" using round_even_range [of z] by simp
  finally show ?thesis .
next
  case False
  moreover have "\<lfloor>y\<rfloor> \<le> \<lfloor>z\<rfloor>" using assms by (rule floor_mono)
  ultimately have eq: "\<lfloor>z\<rfloor> = \<lfloor>y\<rfloor>" by simp
  have "y - of_int \<lfloor>y\<rfloor> \<le> z - of_int \<lfloor>y\<rfloor>" using assms by simp
  then show ?thesis
    by (auto simp: round_even_def Let_def eq)
qed

lemma round_even_minus: "round_even (- y) = - round_even y"
proof (cases "y = of_int \<lfloor>y\<rfloor>")
  case True
  then obtain m where "y = of_int m" ..
  then show ?thesis
    by (simp add: round_even_of_int flip: of_int_minus)
next
  case False
  then have fl: "\<lfloor>- y\<rfloor> = - \<lfloor>y\<rfloor> - 1"
    by (simp add: floor_minus ceiling_altdef)
  show ?thesis
    by (auto simp: round_even_def Let_def fl)
qed

subsection \<open>Rounding to the nearest double is monotone\<close>

lemma log2_floor_bounds:
  fixes x :: real
  assumes "0 < x"
  shows "2 powr of_int \<lfloor>log 2 x\<rfloor> \<le> x" and "x < 2 powr (of_int \<lfloor>log 2 x\<rfloor> + 1)"
  using floor_log_eq_powr_iff [of x 2 "\<lfloor>log 2 x\<rfloor>"] assms by simp_all

lemma round_double_minus: "round_double (- x) = - round_double x"
  by (simp add: round_double_def Let_def round_even_minus)

lemma round_double_pos_bounds:
  fixes x :: real
  assumes "0 < x"
  shows "2 powr of_int \<lfloor>log 2 x\<rfloor> \<le> round_double x"
    and "round_double x \<le> 2 powr (of_int \<lfloor>log 2 x\<rfloor> + 1)"
proof -
  define e where "e = \<lfloor>log 2 x\<rfloor>"
  define u :: real where "u = 2 powr (of_int e - 52)"
  have u: "0 < u" by (simp add: u_def)
  have lo: "2 powr of_int e \<le> x" and hi: "x < 2 powr (of_int e + 1)"
    unfolding e_def using assms by (rule log2_floor_bounds)+
  have pe: "2 powr of_int e = 2 ^ 52 * u"
    by (simp add: u_def powr_diff)
  have pe1: "2 powr (of_int e + 1) = 2 ^ 53 * u"
    by (simp add: u_def powr_diff powr_add)
  have "2 ^ 52 \<le> x / u" using lo u by (simp add: pe le_divide_eq)
  then have "round_even (of_int (2 ^ 52)) \<le> round_even (x / u)"
    by (intro round_even_mono) simp
  then have a: "2 ^ 52 \<le> round_even (x / u)" by (simp only: round_even_of_int)
  have "x / u \<le> 2 ^ 53" using hi u by (simp add: pe1 divide_le_eq)
  then have "round_even (x / u) \<le> round_even (of_int (2 ^ 53))"
    by (intro round_even_mono) simp
  then have b: "round_even (x / u) \<le> 2 ^ 53" by (simp only: round_even_of_int)
  have rd: "round_double x = of_int (round_even (x / u)) * u"
    using assms by (simp add: round_double_def Let_def u_def e_def)
  have "(2 ^ 52 :: real) \<le> of_int (round_even (x / u))"
    using a by (metis of_int_le_iff of_int_numeral of_int_power)
  then show "2 powr of_int \<lfloor>log 2 x\<rfloor> \<le> round_double x"
    using u by (simp add: rd pe e_def [symmetric])
  have "of_int (round_even (x / u)) \<le> (2 ^ 53 :: real)"
    using b by (metis of_int_le_iff of_int_numeral of_int_power)
  then show "round_double x \<le> 2 powr (of_int \<lfloor>log 2 x\<rfloor> + 1)"
    using u by (simp add: rd pe1 e_def [symmetric])
qed

lemma round_double_pos:
  assumes "0 < x"
  shows "0 < round_double x"
proof -
  have "(0::real) < 2 powr of_int \<lfloor>log 2 x\<rfloor>" by simp
  also have "\<dots> \<le> round_double x" using assms by (rule round_double_pos_bounds)
  finally show ?thesis .
qed

lemma round_double_mono_pos:
  assumes "0 < x" and "x \<le> y"
  shows "round_double x \<le> round_double y"
proof -
  have y: "0 < y" using assms by simp
  define ex where "ex = \<lfloor>log 2 x\<rfloor>"
  define ey where "ey = \<lfloor>log 2 y\<rfloor>"
  have "log 2 x \<le> log 2 y" using assms by simp
  then have le: "ex \<le> ey" unfolding ex_def ey_def by (rule floor_mono)
  show ?thesis
  proof (cases "ex = ey")
    case True
    define u :: real where "u = 2 powr (of_int ex - 52)"
    have u: "0 < u" by (simp add: u_def)
    have "x / u \<le> y / u" using assms(2) u by (simp add: divide_right_mono)
    then have "round_even (x / u) \<le> round_even (y / u)" by (rule round_even_mono)
    then have "of_int (round_even (x / u)) * u \<le> of_int (round_even (y / u)) * u"
      using u by simp
    moreover have "round_double x = of_int (round_even (x / u)) * u"
      using assms(1) by (simp add: round_double_def Let_def u_def ex_def)
    moreover have "round_double y = of_int (round_even (y / u)) * u"
      using y True by (simp add: round_double_def Let_def u_def ey_def)
    ultimately show ?thesis by simp
  next
    case False
    with le have "ex + 1 \<le> ey" by simp
    then have "(of_int ex + 1 :: real) \<le> of_int ey" by (metis of_int_1 of_int_add of_int_le_iff)
    then have "(2::real) powr (of_int ex + 1) \<le> 2 powr of_int ey" by simp
    moreover have "round_double x \<le> 2 powr (of_int ex + 1)"
      unfolding ex_def using assms(1) by (rule round_double_pos_bounds)
    moreover have "2 powr of_int ey \<le> round_double y"
      unfolding ey_def using y by (rule round_double_pos_bounds)
    ultimately show ?thesis by linarith
  qed
qed

lemma round_double_mono:
  assumes "x \<le> y"
  shows "round_double x \<le> round_double y"
proof -
  consider "0 < x" | "x \<le> 0" "0 \<le> y" | "y < 0" using assms by linarith
  then show ?thesis
  proof cases
    case 1
    then show ?thesis using assms by (rule round_double_mono_pos)
  next
    case 2
    have "round_double x \<le> 0"
    proof (cases "x = 0")
      case True
      then show ?thesis by (simp add: round_double_def)
    next
      case False
      then have "0 < - x" using 2 by simp
      then have "0 < round_double (- x)" by (rule round_double_pos)
      then show ?thesis by (simp add: round_double_minus)
    qed
    moreover have "0 \<le> round_double y"
    proof (cases "y = 0")
      case True
      then show ?thesis by (simp add: round_double_def)
    next
      case False
      then have "0 < y" using 2 by simp
      then show ?thesis using round_double_pos [of y] by simp
    qed
    ultimately show ?thesis by simp
  next
    case 3
    then have "0 < - y" "- y \<le> - x" using assms by simp_all
    then have "round_double (- y) \<le> round_double (- x)" by (rule round_double_mono_pos)
    then show ?thesis by (simp add: round_double_minus)
  qed
qed

lemma round_double_scaled:
  fixes x :: real and k :: nat
  assumes "2 ^ 52 \<le> \<bar>x\<bar> * 2 ^ k" and "\<bar>x\<bar> * 2 ^ k < 2 ^ 53"
  shows "round_double x = of_int (round_even (x * 2 ^ k)) / 2 ^ k"
proof -
  have x: "x \<noteq> 0" using assms(1) by auto
  then have ax: "0 < \<bar>x\<bar>" by simp
  have ex: "(of_int (52 - int k) :: real) = 52 - real k" by simp
  have p: "(2::real) powr (of_int (52 - int k)) = 2 ^ 52 / 2 ^ k"
    unfolding ex by (simp add: powr_diff powr_realpow)
  have p1: "(2::real) powr (of_int (52 - int k) + 1) = 2 ^ 53 / 2 ^ k"
    unfolding ex by (simp add: powr_diff powr_add powr_realpow)
  have lo: "(2::real) ^ 52 / 2 ^ k \<le> \<bar>x\<bar>" using assms(1) by (simp add: divide_le_eq)
  have hi: "\<bar>x\<bar> < (2::real) ^ 53 / 2 ^ k" using assms(2) by (simp add: less_divide_eq)
  have "2 powr (of_int (52 - int k)) \<le> \<bar>x\<bar> \<and> \<bar>x\<bar> < 2 powr (of_int (52 - int k) + 1)"
    using lo hi by (simp only: p p1)
  then have e: "\<lfloor>log 2 \<bar>x\<bar>\<rfloor> = 52 - int k"
    using floor_log_eq_powr_iff [of "\<bar>x\<bar>" 2 "52 - int k"] ax by simp
  have u: "(2::real) powr (of_int (52 - int k) - 52) = 1 / 2 ^ k"
    by (simp add: powr_minus_divide powr_realpow)
  show ?thesis
    using x by (simp add: round_double_def Let_def e u del: of_int_diff)
qed

lemma round_double_one: "round_double 1 = 1"
proof -
  have "round_even ((2::real) ^ 52) = 2 ^ 52" using round_even_of_int [of "2 ^ 52"] by simp
  then show ?thesis using round_double_scaled [of 1 52] by simp
qed

lemma float_rounding_round_double: "float_rounding round_double"
  by (simp add: float_rounding_def round_double_mono round_double_one) (simp add: round_double_def)

subsection \<open>Rounding concrete doubles\<close>

lemma round_double_dyadic:
  fixes m :: int and k :: nat
  assumes "2 ^ 52 \<le> \<bar>m\<bar>" and "\<bar>m\<bar> < 2 ^ 53"
  shows "round_double (of_int m / 2 ^ k) = of_int m / 2 ^ k"
proof -
  have a: "\<bar>of_int m / (2::real) ^ k\<bar> * 2 ^ k = of_int \<bar>m\<bar>" by (simp add: abs_divide)
  have "(2::real) ^ 52 \<le> of_int \<bar>m\<bar>" "of_int \<bar>m\<bar> < (2::real) ^ 53"
    using assms by (metis of_int_le_iff of_int_numeral of_int_power,
        metis of_int_less_iff of_int_numeral of_int_power)
  then have "round_double (of_int m / 2 ^ k) = of_int (round_even (of_int m / 2 ^ k * 2 ^ k)) / 2 ^ k"
    by (intro round_double_scaled) (simp_all only: a)
  then show ?thesis by (simp add: round_even_of_int)
qed

lemma round_double_0_7: "round_double double_0_7 = double_0_7"
proof -
  have "round_double (of_int 6305039478318694 / 2 ^ 53) = of_int 6305039478318694 / 2 ^ 53"
    by (rule round_double_dyadic) simp_all
  then show ?thesis by (simp add: double_0_7_def)
qed

lemma round_double_difference:
  "round_double (double_0_1 - double_0_7) = - (5404319552844595 / 2 ^ 53)"
proof -
  have v: "double_0_1 - double_0_7 = - (21617278211378379 / 2 ^ 55)"
    by (simp add: double_0_1_def double_0_7_def)
  have sc: "- (21617278211378379 / 2 ^ 55) * 2 ^ 53 = - (21617278211378379 / 4 :: real)"
    by simp
  have r: "round_even (- (21617278211378379 / 4)) = - 5404319552844595"
    by (simp add: round_even_def Let_def)
  have "round_double (- (21617278211378379 / 2 ^ 55))
          = of_int (round_even (- (21617278211378379 / 2 ^ 55) * 2 ^ 53)) / 2 ^ 53"
    by (rule round_double_scaled) simp_all
  also have "\<dots> = of_int (- 5404319552844595) / 2 ^ 53" by (simp only: sc r)
  also have "\<dots> = - (5404319552844595 / 2 ^ 53)" by simp
  finally show ?thesis by (simp only: v)
qed

lemma blend_double_end:
  "blend double_runtime double_0_7 double_0_1 1 = 900719925474099 / 2 ^ 53"
proof -
  have "round_double (of_int (- 5404319552844595) / 2 ^ 53) = of_int (- 5404319552844595) / 2 ^ 53"
    by (rule round_double_dyadic) simp_all
  then have e: "round_double (- (5404319552844595 / 2 ^ 53)) = - (5404319552844595 / 2 ^ 53)"
    by simp
  have s: "double_0_7 + - (5404319552844595 / 2 ^ 53) = 7205759403792792 / 2 ^ 56"
    by (simp add: double_0_7_def)
  have "round_double (of_int 7205759403792792 / 2 ^ 56) = of_int 7205759403792792 / 2 ^ 56"
    by (rule round_double_dyadic) simp_all
  then have r: "round_double (7205759403792792 / 2 ^ 56) = 7205759403792792 / 2 ^ 56"
    by simp
  have "blend double_runtime double_0_7 double_0_1 1
          = round_double (double_0_7 + round_double (round_double (double_0_1 - double_0_7)))"
    by (simp add: blend_def double_runtime_def)
  also have "\<dots> = round_double (double_0_7 + - (5404319552844595 / 2 ^ 53))"
    by (simp only: round_double_difference e)
  also have "\<dots> = 7205759403792792 / 2 ^ 56" by (simp only: s r)
  also have "\<dots> = 900719925474099 / 2 ^ 53" by simp
  finally show ?thesis .
qed

section \<open>Properties of the distance calculator\<close>

declare str_nat.simps [simp del]

subsection \<open>The haversine term lies between 0 and 1\<close>

lemma radians_diff: "radians (x - y) = radians x - radians y"
  by (simp add: radians_def diff_divide_distrib left_diff_distrib)

lemma sin_half_sq: "(sin (x / 2))\<^sup>2 = (1 - cos x) / 2" for x :: real
  using cos_double_sin [of "x / 2"] by simp

lemma cos_half_sq: "(cos (x / 2))\<^sup>2 = (1 + cos x) / 2" for x :: real
  using cos_double_cos [of "x / 2"] by simp

lemma hav_end: "(sin ((q - p) / 2))\<^sup>2 + cos p * cos q = (cos ((p + q) / 2))\<^sup>2" for p q :: real
  by (simp add: sin_half_sq cos_half_sq cos_add cos_diff field_simps)

lemma hav_convex:
  fixes p q l :: real
  defines "h \<equiv> (sin (l / 2))\<^sup>2"
  shows "(sin ((q - p) / 2))\<^sup>2 + cos p * cos q * h
           = (1 - h) * (sin ((q - p) / 2))\<^sup>2 + h * (cos ((p + q) / 2))\<^sup>2"
proof -
  have e: "cos p * cos q = (cos ((p + q) / 2))\<^sup>2 - (sin ((q - p) / 2))\<^sup>2"
    using hav_end [where p = p and q = q] by simp
  show ?thesis unfolding e by (simp add: algebra_simps)
qed

lemma haversine_a_eq:
  "haversine_a lat1 lon1 lat2 lon2 =
     (1 - (sin (radians (lon2 - lon1) / 2))\<^sup>2) * (sin ((radians lat2 - radians lat1) / 2))\<^sup>2
       + (sin (radians (lon2 - lon1) / 2))\<^sup>2 * (cos ((radians lat1 + radians lat2) / 2))\<^sup>2"
  unfolding haversine_a_def Let_def radians_diff [of lat2 lat1]
  by (rule hav_convex)

lemma sq_le_one_sin: "(sin x)\<^sup>2 \<le> 1" for x :: real
  using abs_sin_le_one [of x] by (simp add: abs_square_le_1)
lemma sq_le_one_cos: "(cos x)\<^sup>2 \<le> 1" for x :: real
  using abs_cos_le_one [of x] by (simp add: abs_square_le_1)

lemma haversine_a_ge0: "0 \<le> haversine_a lat1 lon1 lat2 lon2"
  unfolding haversine_a_eq
  by (intro add_nonneg_nonneg mult_nonneg_nonneg) (simp_all add: sq_le_one_sin)

lemma convex_le_one:
  fixes h u v :: real
  assumes "0 \<le> h" "h \<le> 1" "u \<le> 1" "v \<le> 1"
  shows "(1 - h) * u + h * v \<le> 1"
proof -
  have "(1 - h) * u \<le> (1 - h) * 1" using assms by (intro mult_left_mono) simp_all
  moreover have "h * v \<le> h * 1" using assms by (intro mult_left_mono) simp_all
  ultimately show ?thesis by simp
qed

lemma haversine_a_le1: "haversine_a lat1 lon1 lat2 lon2 \<le> 1"
  unfolding haversine_a_eq
  by (rule convex_le_one) (simp_all add: sq_le_one_sin sq_le_one_cos)

lemma atan2_sqrt:
  fixes a :: real
  assumes "0 \<le> a" "a \<le> 1"
  shows "atan2 (sqrt a) (sqrt (1 - a)) = arcsin (sqrt a)"
proof (cases "a = 1")
  case True
  then show ?thesis by (simp add: atan2_def)
next
  case False
  with assms have lt: "a < 1" by simp
  then have pos: "0 < sqrt (1 - a)" by simp
  have s1: "sqrt a < 1" using lt assms by (simp add: real_sqrt_lt_1_iff)
  have s0: "0 \<le> sqrt a" using assms by simp
  define t where "t = arcsin (sqrt a)"
  have tb: "- (pi / 2) < t" "t < pi / 2"
    using arcsin_lt_bounded [of "sqrt a"] s0 s1 by (simp_all add: t_def)
  have st: "sin t = sqrt a" unfolding t_def using s0 s1 by (intro sin_arcsin) linarith+
  have ct: "cos t = sqrt (1 - a)"
    using cos_arcsin [of "sqrt a"] s0 s1 assms by (simp add: t_def)
  have "tan t = sqrt a / sqrt (1 - a)" by (simp add: tan_def st ct)
  then have "arctan (sqrt a / sqrt (1 - a)) = t"
    using arctan_tan [of t] tb by simp
  with pos show ?thesis by (simp add: atan2_def t_def)
qed

subsection \<open>Both formulations are total and agree\<close>

lemma haversine_a_backup_eq: "haversine_a_backup lat1 lon1 lat2 lon2 = haversine_a lat1 lon1 lat2 lon2"
  by (simp add: haversine_a_backup_def haversine_a_def)

lemma sqrt_haversine_a_le1: "sqrt (haversine_a lat1 lon1 lat2 lon2) \<le> 1"
  using haversine_a_le1 [of lat1 lon1 lat2 lon2] by simp

lemma haversine_distance_eq:
  "haversine_distance lat1 lon1 lat2 lon2 =
     Inr (6371000 * (2 * arcsin (sqrt (haversine_a lat1 lon1 lat2 lon2))))"
  using haversine_a_ge0 [of lat1 lon1 lat2 lon2] haversine_a_le1 [of lat1 lon1 lat2 lon2]
  by (simp add: haversine_distance_def py_sqrt_def atan2_sqrt Let_def)

lemma haversine_distance_backup_eq:
  "haversine_distance_backup lat1 lon1 lat2 lon2 =
     Inr (2 * 6371000 * arcsin (sqrt (haversine_a lat1 lon1 lat2 lon2)))"
proof -
  let ?a = "haversine_a lat1 lon1 lat2 lon2"
  have a0: "\<not> ?a < 0"
    using haversine_a_ge0 [of lat1 lon1 lat2 lon2] by simp
  have "0 \<le> sqrt ?a"
    using haversine_a_ge0 [of lat1 lon1 lat2 lon2] by simp
  then have lo: "\<not> sqrt ?a < - 1" by linarith
  have hi: "\<not> 1 < ?a"
    using haversine_a_le1 [of lat1 lon1 lat2 lon2] by linarith
  show ?thesis
    by (simp add: haversine_distance_backup_def py_sqrt_def py_asin_def haversine_a_backup_eq
        Let_def a0 lo hi)
qed

lemma haversine_a_same: "haversine_a lat lon lat lon = 0"
  by (simp add: haversine_a_def radians_def)

lemma haversine_a_sym: "haversine_a lat1 lon1 lat2 lon2 = haversine_a lat2 lon2 lat1 lon1"
proof -
  have flip: "(sin (radians (y - x) / 2))\<^sup>2 = (sin (radians (x - y) / 2))\<^sup>2" for x y
  proof -
    have "radians (y - x) / 2 = - (radians (x - y) / 2)"
      by (simp add: radians_def field_simps)
    then have "sin (radians (y - x) / 2) = - sin (radians (x - y) / 2)"
      by (simp only: sin_minus)
    then show ?thesis by simp
  qed
  show ?thesis
    by (simp add: haversine_a_def flip [of lat2 lat1] flip [of lon2 lon1])
qed

text \<open>
  Claim C4: for every coordinate \<open>(lat, lon)\<close>, the distance from the coordinate to
  itself is 0, in the atan2 formulation and in the asin formulation; neither raises.
\<close>

theorem haversine_distance_identical:
  "haversine_distance lat lon lat lon = Inr 0 \<and> haversine_distance_backup lat lon lat lon = Inr 0"
  by (simp add: haversine_distance_eq haversine_distance_backup_eq haversine_a_same)

text \<open>
  Claim C5: the distance from A to B equals the distance from B to A, in the atan2
  formulation and in the asin formulation.
\<close>

theorem haversine_distance_symmetric:
  "haversine_distance lat1 lon1 lat2 lon2 = haversine_distance lat2 lon2 lat1 lon1
   \<and> haversine_distance_backup lat1 lon1 lat2 lon2 = haversine_distance_backup lat2 lon2 lat1 lon1"
  using haversine_a_sym [of lat1 lon1 lat2 lon2]
  by (simp add: haversine_distance_eq haversine_distance_backup_eq)

text \<open>
  In exact arithmetic the atan2 formulation and the asin formulation are the same
  function. This is a fact about the two formulas; the float functions of the two
  scripts round differently.
\<close>

lemma haversine_formulas_agree_exact:
  "haversine_distance lat1 lon1 lat2 lon2 = haversine_distance_backup lat1 lon1 lat2 lon2"
  by (simp add: haversine_distance_eq haversine_distance_backup_eq)

subsection \<open>The distance along the equator and along a meridian\<close>

lemma pi_ge_three: "3 \<le> pi"
proof -
  have "sin (pi / 6) \<le> pi / 6" by (rule sin_x_le_x) simp
  then show ?thesis by (simp add: sin_30)
qed

lemma floor_pi: "\<lfloor>pi\<rfloor> = 3"
  using pi_ge_three pi_less_4 by (simp add: floor_eq_iff)

lemma arcsin_sqrt_sin_sq:
  fixes t :: real
  assumes "\<bar>t\<bar> \<le> pi / 2"
  shows "arcsin (sqrt ((sin t)\<^sup>2)) = \<bar>t\<bar>"
proof -
  have range: "0 \<le> \<bar>t\<bar>" "\<bar>t\<bar> \<le> pi" using assms pi_ge_zero by linarith+
  have "\<bar>sin t\<bar> = sin \<bar>t\<bar>"
  proof (cases "0 \<le> t")
    case True
    then have "0 \<le> sin t" using range by (intro sin_ge_zero) simp_all
    then show ?thesis using True by simp
  next
    case False
    then have "0 \<le> sin (- t)" using range by (intro sin_ge_zero) simp_all
    then show ?thesis using False by simp
  qed
  then have "arcsin (sqrt ((sin t)\<^sup>2)) = arcsin (sin \<bar>t\<bar>)" by simp
  also have "\<dots> = \<bar>t\<bar>" using assms by (intro arcsin_sin) linarith+
  finally show ?thesis .
qed

lemma haversine_same_longitude:
  assumes "\<bar>lat2 - lat1\<bar> \<le> 180"
  shows "haversine_distance lat1 lon lat2 lon = Inr (6371000 * (\<bar>lat2 - lat1\<bar> * pi / 180))"
proof -
  define t where "t = radians (lat2 - lat1) / 2"
  have abs_t: "\<bar>t\<bar> = \<bar>lat2 - lat1\<bar> * pi / 360" by (simp add: t_def radians_def abs_mult)
  have "\<bar>lat2 - lat1\<bar> * pi \<le> 180 * pi" using assms by (intro mult_right_mono) simp_all
  then have "\<bar>t\<bar> \<le> pi / 2" by (simp add: abs_t)
  then have f1: "arcsin (sqrt ((sin t)\<^sup>2)) = \<bar>t\<bar>" by (rule arcsin_sqrt_sin_sq)
  have f2: "haversine_a lat1 lon lat2 lon = (sin t)\<^sup>2"
    by (simp add: haversine_a_def t_def radians_def)
  have f3: "arcsin (sqrt (haversine_a lat1 lon lat2 lon)) = \<bar>lat2 - lat1\<bar> * pi / 360"
    by (simp only: f2 f1 abs_t)
  show ?thesis unfolding haversine_distance_eq f3 by simp
qed

lemma haversine_equator:
  assumes "\<bar>lon2 - lon1\<bar> \<le> 180"
  shows "haversine_distance 0 lon1 0 lon2 = Inr (6371000 * (\<bar>lon2 - lon1\<bar> * pi / 180))"
proof -
  define t where "t = radians (lon2 - lon1) / 2"
  have abs_t: "\<bar>t\<bar> = \<bar>lon2 - lon1\<bar> * pi / 360" by (simp add: t_def radians_def abs_mult)
  have "\<bar>lon2 - lon1\<bar> * pi \<le> 180 * pi" using assms by (intro mult_right_mono) simp_all
  then have "\<bar>t\<bar> \<le> pi / 2" by (simp add: abs_t)
  then have f1: "arcsin (sqrt ((sin t)\<^sup>2)) = \<bar>t\<bar>" by (rule arcsin_sqrt_sin_sq)
  have f2: "haversine_a 0 lon1 0 lon2 = (sin t)\<^sup>2"
    by (simp add: haversine_a_def t_def radians_def)
  have f3: "arcsin (sqrt (haversine_a 0 lon1 0 lon2)) = \<bar>lon2 - lon1\<bar> * pi / 360"
    by (simp only: f2 f1 abs_t)
  show ?thesis unfolding haversine_distance_eq f3 by simp
qed

lemma haversine_distance_half_turn: "haversine_distance 0 0 0 180 = Inr (6371000 * pi)"
  using haversine_equator [of 180 0] by simp

lemma haversine_distance_one_degree: "haversine_distance 0 0 0 1 = Inr (6371000 * pi / 180)"
  using haversine_equator [of 1 0] by simp

lemma haversine_distance_origin: "haversine_distance 0 0 0 0 = Inr 0"
  by (simp add: haversine_distance_eq haversine_a_same)

lemma haversine_distance_doubles:
  "haversine_distance double_0_7 0 double_0_1 0 = Inr (6371000 * (21617278211378379 / 2 ^ 55 * pi / 180))"
proof -
  have "\<bar>double_0_1 - double_0_7\<bar> = 21617278211378379 / 2 ^ 55"
    by (simp add: double_0_1_def double_0_7_def)
  then show ?thesis using haversine_same_longitude [of double_0_1 double_0_7 0] by simp
qed


section \<open>Properties of the waypoint generator\<close>

subsection \<open>The generator in closed form\<close>

lemma haversine_distance_total: "\<exists>d. haversine_distance lat1 lon1 lat2 lon2 = Inr d"
  by (simp add: haversine_distance_eq)

lemma haversine_distance_nonneg:
  assumes "haversine_distance lat1 lon1 lat2 lon2 = Inr d"
  shows "0 \<le> d"
proof -
  let ?a = "haversine_a lat1 lon1 lat2 lon2"
  have "sqrt ?a \<in> {0..1}"
    using haversine_a_ge0 [of lat1 lon1 lat2 lon2] sqrt_haversine_a_le1 [of lat1 lon1 lat2 lon2]
    by simp
  then have "0 \<le> arcsin (sqrt ?a)" by (rule arcsin_nonneg)
  moreover have "d = 6371000 * (2 * arcsin (sqrt ?a))"
    using assms by (simp add: haversine_distance_eq)
  ultimately show ?thesis by simp
qed

lemma waypoints_loop_zero:
  "waypoints_loop rt lat1 lon1 lat2 lon2 0 (i # rest) acc = Inl ZeroDivisionError"
  by (simp add: py_truediv_def)

lemma waypoints_loop_nonzero:
  "n \<noteq> 0 \<Longrightarrow>
   waypoints_loop rt lat1 lon1 lat2 lon2 n idxs acc =
     Inr (acc @ map (waypoint_at rt lat1 lon1 lat2 lon2 n) idxs)"
  by (induction idxs arbitrary: acc) (simp_all add: py_truediv_def waypoint_at_def Let_def)

lemma py_int_of_int: "py_int (Finite (of_int k)) = Inr k"
  by (simp add: py_int_def)

lemma py_range_Suc: "py_range (n + 1) = [0..n]"
  by (simp add: py_range_def)

lemma generate_waypoints_on_points:
  assumes "distance_fn lat1 lon1 lat2 lon2 = Inr d" and "s \<noteq> 0"
    and "py_int (floor_quotient rt d s) = Inr n"
  shows "generate_waypoints_on rt distance_fn (lat1, lon1) (lat2, lon2) s =
           (if n = 0 then Inl ZeroDivisionError
            else Inr (map (waypoint_at rt lat1 lon1 lat2 lon2 n) [0..n]))"
proof (cases "n = 0")
  case True
  then show ?thesis
    using assms
    by (simp add: generate_waypoints_on_def py_floordiv_def py_range_def py_truediv_def)
next
  case False
  then show ?thesis
    using assms
    by (simp add: generate_waypoints_on_def py_floordiv_def py_range_Suc waypoints_loop_nonzero)
qed

lemma generate_waypoints_on_eq:
  assumes "distance_fn lat1 lon1 lat2 lon2 = Inr d" and "s \<noteq> 0"
    and "floor_quotient rt d s = Finite (of_int k)"
  shows "generate_waypoints_on rt distance_fn (lat1, lon1) (lat2, lon2) s =
           (if k = 0 then Inl ZeroDivisionError
            else Inr (map (waypoint_at rt lat1 lon1 lat2 lon2 k) [0..k]))"
proof -
  have "py_int (floor_quotient rt d s) = Inr k" by (simp add: assms(3) py_int_of_int)
  with assms(1,2) show ?thesis
    by (rule generate_waypoints_on_points [where distance_fn = distance_fn and d = d])
qed

lemma generate_waypoints_on_zero_spacing:
  assumes "distance_fn lat1 lon1 lat2 lon2 = Inr d"
  shows "generate_waypoints_on rt distance_fn (lat1, lon1) (lat2, lon2) 0 = Inl ZeroDivisionError"
  using assms by (simp add: generate_waypoints_on_def py_floordiv_def)

lemma generate_waypoints_on_infinite:
  assumes "distance_fn lat1 lon1 lat2 lon2 = Inr d" and "s \<noteq> 0"
    and "floor_quotient rt d s = Infinite"
  shows "generate_waypoints_on rt distance_fn (lat1, lon1) (lat2, lon2) s = Inl OverflowError"
  using assms by (simp add: generate_waypoints_on_def py_floordiv_def py_int_def)

lemma generate_waypoints_on_Inr:
  assumes "generate_waypoints_on rt distance_fn (lat1, lon1) (lat2, lon2) s = Inr wps"
  obtains d n where "distance_fn lat1 lon1 lat2 lon2 = Inr d" and "s \<noteq> 0"
    and "py_int (floor_quotient rt d s) = Inr n" and "n \<noteq> 0"
    and "wps = map (waypoint_at rt lat1 lon1 lat2 lon2 n) [0..n]"
proof -
  obtain d where d: "distance_fn lat1 lon1 lat2 lon2 = Inr d"
    using assms by (auto simp: generate_waypoints_on_def split: sum.splits)
  have s: "s \<noteq> 0"
    using assms d by (auto simp: generate_waypoints_on_def py_floordiv_def split: sum.splits)
  obtain n where n: "py_int (floor_quotient rt d s) = Inr n"
    using assms d s by (auto simp: generate_waypoints_on_def py_floordiv_def split: sum.splits)
  have "n \<noteq> 0" and "wps = map (waypoint_at rt lat1 lon1 lat2 lon2 n) [0..n]"
    using assms
    unfolding generate_waypoints_on_points [where distance_fn = distance_fn, OF d s n]
    by (simp_all split: if_splits)
  with d s n show ?thesis by (rule that)
qed

lemma floor_quotient_zero_iff:
  fixes d s :: real
  assumes "0 < s" "0 \<le> d"
  shows "\<lfloor>d / s\<rfloor> = 0 \<longleftrightarrow> d < s"
proof -
  have "\<lfloor>d / s\<rfloor> = 0 \<longleftrightarrow> 0 \<le> d / s \<and> d / s < 1"
    by (simp add: floor_eq_iff)
  also have "\<dots> \<longleftrightarrow> d < s"
    using assms by (simp add: divide_less_eq)
  finally show ?thesis .
qed

lemma floor_quotient_zero_iff_neg:
  fixes d s :: real
  assumes "s < 0" "0 \<le> d"
  shows "\<lfloor>d / s\<rfloor> = 0 \<longleftrightarrow> d = 0"
proof -
  have "\<lfloor>d / s\<rfloor> = 0 \<longleftrightarrow> 0 \<le> d / s \<and> d / s < 1" by (simp add: floor_eq_iff)
  also have "\<dots> \<longleftrightarrow> d = 0"
    using assms by (auto simp: zero_le_divide_iff divide_less_eq)
  finally show ?thesis .
qed

lemma floor_quotient_pos:
  fixes d s :: real
  assumes "0 < s" "s \<le> d"
  shows "1 \<le> \<lfloor>d / s\<rfloor>"
proof -
  have "1 \<le> d / s" using assms by (simp add: le_divide_eq)
  then show ?thesis by (simp add: le_floor_iff)
qed

text \<open>
  Claim C1, amended: for every start and end coordinate and every positive spacing
  \<open>s\<close> such that the distance calculator returns a distance \<open>d \<ge> s\<close> and the float
  floor quotient \<^verbatim>\<open>d // s\<close> is the exact \<open>floor (d / s)\<close>, \<^verbatim>\<open>generate_waypoints\<close>
  returns a list of exactly \<open>floor (d / s) + 1\<close> waypoints. This holds on every float
  runtime and for every distance calculator.
\<close>

theorem generate_waypoints_count:
  assumes "0 < s" and "distance_fn lat1 lon1 lat2 lon2 = Inr d" and "s \<le> d"
    and "floor_quotient rt d s = Finite (of_int \<lfloor>d / s\<rfloor>)"
  shows "\<exists>wps. generate_waypoints_on rt distance_fn (lat1, lon1) (lat2, lon2) s = Inr wps
           \<and> int (length wps) = \<lfloor>d / s\<rfloor> + 1"
proof -
  have n: "1 \<le> \<lfloor>d / s\<rfloor>" using assms(1,3) by (rule floor_quotient_pos)
  then have nz: "\<lfloor>d / s\<rfloor> \<noteq> 0" by linarith
  have s: "s \<noteq> 0" using assms(1) by simp
  have "generate_waypoints_on rt distance_fn (lat1, lon1) (lat2, lon2) s
          = Inr (map (waypoint_at rt lat1 lon1 lat2 lon2 \<lfloor>d / s\<rfloor>) [0..\<lfloor>d / s\<rfloor>])"
    using nz
    by (simp only: generate_waypoints_on_eq [where distance_fn = distance_fn, OF assms(2) s assms(4)]
        if_False)
  moreover have "int (length (map (waypoint_at rt lat1 lon1 lat2 lon2 \<lfloor>d / s\<rfloor>) [0..\<lfloor>d / s\<rfloor>]))
               = \<lfloor>d / s\<rfloor> + 1"
    using n by simp
  ultimately show ?thesis by blast
qed

text \<open>
  Claim C2, amended: whenever the distance calculator returns a distance \<open>d\<close> and,
  at a spacing other than 0, the float floor quotient \<^verbatim>\<open>d // spacing\<close> is the exact
  \<open>floor (d / spacing)\<close>, \<^verbatim>\<open>generate_waypoints\<close> raises ZeroDivisionError if and only
  if \<open>d\<close> is strictly less than the spacing, or the spacing is 0, or the spacing is
  negative and \<open>d\<close> is 0; in every other such case it returns normally.
\<close>

theorem generate_waypoints_fault:
  assumes "distance_fn lat1 lon1 lat2 lon2 = Inr d" and "0 \<le> d"
    and "s = 0 \<or> floor_quotient rt d s = Finite (of_int \<lfloor>d / s\<rfloor>)"
  shows "(generate_waypoints_on rt distance_fn (lat1, lon1) (lat2, lon2) s = Inl ZeroDivisionError
            \<longleftrightarrow> d < s \<or> s = 0 \<or> (s < 0 \<and> d = 0))
         \<and> (generate_waypoints_on rt distance_fn (lat1, lon1) (lat2, lon2) s
               \<noteq> Inl ZeroDivisionError
             \<longrightarrow> (\<exists>wps. generate_waypoints_on rt distance_fn (lat1, lon1) (lat2, lon2) s
                          = Inr wps))"
proof -
  consider "s = 0" | "0 < s" | "s < 0" by linarith
  then show ?thesis
  proof cases
    case 1
    then show ?thesis
      by (simp add: generate_waypoints_on_zero_spacing [where distance_fn = distance_fn, OF assms(1)])
  next
    case 2
    then have s: "s \<noteq> 0" by simp
    with assms(3) have q: "floor_quotient rt d s = Finite (of_int \<lfloor>d / s\<rfloor>)" by simp
    have "\<lfloor>d / s\<rfloor> = 0 \<longleftrightarrow> d < s" using 2 assms(2) by (rule floor_quotient_zero_iff)
    then show ?thesis
      using 2
      by (simp add: generate_waypoints_on_eq [where distance_fn = distance_fn, OF assms(1) s q])
  next
    case 3
    then have s: "s \<noteq> 0" by simp
    with assms(3) have q: "floor_quotient rt d s = Finite (of_int \<lfloor>d / s\<rfloor>)" by simp
    have "\<lfloor>d / s\<rfloor> = 0 \<longleftrightarrow> d = 0" using 3 assms(2) by (rule floor_quotient_zero_iff_neg)
    moreover have "\<not> d < s" using 3 assms(2) by linarith
    ultimately show ?thesis
      using 3
      by (simp add: generate_waypoints_on_eq [where distance_fn = distance_fn, OF assms(1) s q])
  qed
qed

subsection \<open>The generator in exact arithmetic\<close>

lemma blend_exact: "blend exact_runtime a b f = a + (b - a) * f"
  by (simp add: blend_def exact_runtime_def)

lemma waypoint_at_exact:
  "waypoint_at exact_runtime lat1 lon1 lat2 lon2 n i =
     (lat1 + (lat2 - lat1) * (of_int i / of_int n), lon1 + (lon2 - lon1) * (of_int i / of_int n), 100)"
  by (simp add: waypoint_at_def blend_exact) (simp add: exact_runtime_def)

lemma exact_floor_quotient:
  "floor_quotient exact_runtime d s =
     (if float_overflow \<le> \<bar>d / s\<bar> then Infinite else Finite (of_int \<lfloor>d / s\<rfloor>))"
  by (simp add: exact_runtime_def ideal_floor_quotient_def)

lemma generate_waypoints_eq:
  assumes "haversine_distance lat1 lon1 lat2 lon2 = Inr d"
  shows "generate_waypoints (lat1, lon1) (lat2, lon2) s =
           (if s = 0 then Inl ZeroDivisionError
            else if float_overflow \<le> \<bar>d / s\<bar> then Inl OverflowError
            else if \<lfloor>d / s\<rfloor> = 0 then Inl ZeroDivisionError
            else Inr (map (waypoint_at exact_runtime lat1 lon1 lat2 lon2 \<lfloor>d / s\<rfloor>) [0..\<lfloor>d / s\<rfloor>]))"
proof (cases "s = 0")
  case True
  then show ?thesis
    using generate_waypoints_on_zero_spacing [where distance_fn = haversine_distance, OF assms]
    by (simp add: generate_waypoints_def)
next
  case s: False
  show ?thesis
  proof (cases "float_overflow \<le> \<bar>d / s\<bar>")
    case True
    then have "floor_quotient exact_runtime d s = Infinite" by (simp add: exact_floor_quotient)
    with assms s
    have "generate_waypoints_on exact_runtime haversine_distance (lat1, lon1) (lat2, lon2) s
            = Inl OverflowError"
      by (rule generate_waypoints_on_infinite [where distance_fn = haversine_distance])
    then show ?thesis using s True by (simp add: generate_waypoints_def)
  next
    case False
    then have "floor_quotient exact_runtime d s = Finite (of_int \<lfloor>d / s\<rfloor>)"
      by (simp add: exact_floor_quotient)
    with assms s
    have "generate_waypoints_on exact_runtime haversine_distance (lat1, lon1) (lat2, lon2) s
            = (if \<lfloor>d / s\<rfloor> = 0 then Inl ZeroDivisionError
               else Inr (map (waypoint_at exact_runtime lat1 lon1 lat2 lon2 \<lfloor>d / s\<rfloor>) [0..\<lfloor>d / s\<rfloor>]))"
      by (rule generate_waypoints_on_eq [where distance_fn = haversine_distance])
    then show ?thesis using s False by (simp add: generate_waypoints_def)
  qed
qed

lemma waypoint_at_first: "waypoint_at exact_runtime lat1 lon1 lat2 lon2 n 0 = (lat1, lon1, 100)"
  by (simp add: waypoint_at_exact)

lemma waypoint_at_last:
  "n \<noteq> 0 \<Longrightarrow> waypoint_at exact_runtime lat1 lon1 lat2 lon2 n n = (lat2, lon2, 100)"
  by (simp add: waypoint_at_exact)

lemma generate_waypoints_Inr:
  assumes "generate_waypoints (lat1, lon1) (lat2, lon2) s = Inr wps"
    and "haversine_distance lat1 lon1 lat2 lon2 = Inr d"
  shows "s \<noteq> 0" and "\<lfloor>d / s\<rfloor> \<noteq> 0"
    and "wps = map (waypoint_at exact_runtime lat1 lon1 lat2 lon2 \<lfloor>d / s\<rfloor>) [0..\<lfloor>d / s\<rfloor>]"
  using assms(1) unfolding generate_waypoints_eq [OF assms(2)]
  by (simp_all split: if_splits)

lemma floor_quotient_nonneg:
  fixes d s :: real
  assumes "0 < s" "0 \<le> d"
  shows "0 \<le> \<lfloor>d / s\<rfloor>"
  using assms by simp

text \<open>
  Claim C3, amended: for every start and end coordinate and every positive spacing for
  which \<^verbatim>\<open>generate_waypoints\<close> returns normally, the returned list is not empty,
  its first waypoint has the start latitude and longitude and its last waypoint has the
  end latitude and longitude (exactly, in real arithmetic).
\<close>

theorem generate_waypoints_endpoints:
  assumes "0 < s" and "generate_waypoints (lat1, lon1) (lat2, lon2) s = Inr wps"
  shows "wps \<noteq> [] \<and> hd wps = (lat1, lon1, 100) \<and> last wps = (lat2, lon2, 100)"
proof -
  obtain d where d: "haversine_distance lat1 lon1 lat2 lon2 = Inr d"
    using haversine_distance_total by blast
  define n where "n = \<lfloor>d / s\<rfloor>"
  have "0 \<le> d" using d by (rule haversine_distance_nonneg)
  then have "0 \<le> n" unfolding n_def using assms(1) by (intro floor_quotient_nonneg)
  moreover have nz: "n \<noteq> 0" unfolding n_def using assms(2) d by (rule generate_waypoints_Inr)
  ultimately have n1: "0 \<le> n" "1 \<le> n" by simp_all
  have wps: "wps = map (waypoint_at exact_runtime lat1 lon1 lat2 lon2 n) [0..n]"
    unfolding n_def using assms(2) d by (rule generate_waypoints_Inr)
  have split_first: "[0..n] = 0 # [1..n]" using n1 by (simp add: upto_rec1)
  have split_last: "[0..n] = [0..n - 1] @ [n]" using n1 by (simp add: upto_rec2)
  have "wps \<noteq> []" by (simp add: wps split_first)
  moreover have "hd wps = (lat1, lon1, 100)"
    by (simp add: wps split_first waypoint_at_first)
  moreover have "last wps = (lat2, lon2, 100)"
    unfolding wps split_last using nz by (simp add: waypoint_at_last)
  ultimately show ?thesis by simp
qed

text \<open>
  Claim C9: whenever \<^verbatim>\<open>generate_waypoints\<close> returns normally, every waypoint of
  the returned list has altitude exactly 100, whatever the inputs.
\<close>

theorem generate_waypoints_altitude:
  assumes "generate_waypoints (lat1, lon1) (lat2, lon2) s = Inr wps"
  shows "\<forall>w \<in> set wps. snd (snd w) = 100"
proof -
  obtain d where d: "haversine_distance lat1 lon1 lat2 lon2 = Inr d"
    using haversine_distance_total by blast
  have "wps = map (waypoint_at exact_runtime lat1 lon1 lat2 lon2 \<lfloor>d / s\<rfloor>) [0..\<lfloor>d / s\<rfloor>]"
    using assms d by (rule generate_waypoints_Inr)
  then show ?thesis by (auto simp: waypoint_at_def)
qed

text \<open>
  The altitude is the literal 100 on every float runtime and with every distance
  calculator.
\<close>

lemma generate_waypoints_on_altitude:
  assumes "generate_waypoints_on rt distance_fn (lat1, lon1) (lat2, lon2) s = Inr wps"
  shows "\<forall>w \<in> set wps. snd (snd w) = 100"
proof -
  obtain n where "wps = map (waypoint_at rt lat1 lon1 lat2 lon2 n) [0..n]"
    using assms by (rule generate_waypoints_on_Inr)
  then show ?thesis by (auto simp: waypoint_at_def)
qed

subsection \<open>The blend under rounding\<close>

lemma blend_start:
  assumes "float_rounding (rounded rt)" and "rounded rt a = a"
  shows "blend rt a b 0 = a"
  using assms by (simp add: blend_def float_rounding_def)

lemma blend_between:
  assumes "float_rounding (rounded rt)" and "rounded rt a = a" and "0 \<le> f" and "f \<le> 1"
  shows "min a (blend rt a b 1) \<le> blend rt a b f" and "blend rt a b f \<le> max a (blend rt a b 1)"
proof -
  let ?rnd = "rounded rt"
  have mono: "?rnd x \<le> ?rnd y" if "x \<le> y" for x y
    using assms(1) that by (simp add: float_rounding_def)
  have zero: "?rnd 0 = 0" using assms(1) by (simp add: float_rounding_def)
  define e where "e = ?rnd (b - a)"
  have both: "min a (blend rt a b 1) \<le> blend rt a b f \<and> blend rt a b f \<le> max a (blend rt a b 1)"
  proof (cases "0 \<le> e")
    case True
    have lo: "0 \<le> e * f" using True assms(3) by simp
    have hi: "e * f \<le> e" using mult_left_mono [OF assms(4) True] by simp
    have "?rnd 0 \<le> ?rnd (e * f)" using lo by (rule mono)
    then have r_lo: "a + 0 \<le> a + ?rnd (e * f)" by (simp add: zero)
    have "?rnd (e * f) \<le> ?rnd e" using hi by (rule mono)
    then have r_hi: "a + ?rnd (e * f) \<le> a + ?rnd e" by simp
    have "?rnd (a + 0) \<le> ?rnd (a + ?rnd (e * f))" using r_lo by (rule mono)
    moreover have "?rnd (a + ?rnd (e * f)) \<le> ?rnd (a + ?rnd e)" using r_hi by (rule mono)
    ultimately have "a \<le> blend rt a b f" "blend rt a b f \<le> blend rt a b 1"
      using assms(2) by (simp_all add: blend_def e_def)
    then show ?thesis by simp
  next
    case False
    then have neg: "e \<le> 0" by simp
    have hi: "e * f \<le> 0" using neg assms(3) by (simp add: mult_nonpos_nonneg)
    have lo: "e \<le> e * f" using mult_left_mono_neg [OF assms(4) neg] by simp
    have "?rnd (e * f) \<le> ?rnd 0" using hi by (rule mono)
    then have r_hi: "a + ?rnd (e * f) \<le> a + 0" by (simp add: zero)
    have "?rnd e \<le> ?rnd (e * f)" using lo by (rule mono)
    then have r_lo: "a + ?rnd e \<le> a + ?rnd (e * f)" by simp
    have "?rnd (a + ?rnd (e * f)) \<le> ?rnd (a + 0)" using r_hi by (rule mono)
    moreover have "?rnd (a + ?rnd e) \<le> ?rnd (a + ?rnd (e * f))" using r_lo by (rule mono)
    ultimately have "blend rt a b f \<le> a" "blend rt a b 1 \<le> blend rt a b f"
      using assms(2) by (simp_all add: blend_def e_def)
    then show ?thesis by simp
  qed
  from both show "min a (blend rt a b 1) \<le> blend rt a b f" by simp
  from both show "blend rt a b f \<le> max a (blend rt a b 1)" by simp
qed

text \<open>
  Claim C10, amended: whenever \<^verbatim>\<open>generate_waypoints\<close> returns normally, the waypoint
  at position \<open>i\<close> is the float blend \<^verbatim>\<open>a + (b - a) * f\<close> of start and end with the
  fraction \<open>f = i / num_points\<close>, which lies between 0 and 1; the fractions increase
  monotonically along the list; the first waypoint is the start; and each latitude
  lies between the start latitude and the latitude of the last waypoint, each
  longitude between the start longitude and the longitude of the last waypoint. The
  last waypoint is the blend at fraction 1: the end coordinate as float arithmetic
  rounds \<^verbatim>\<open>a + (b - a)\<close>, which can lie outside the interval from \<open>min a b\<close> to
  \<open>max a b\<close>. This holds on every float runtime with a monotone rounding, for every
  distance calculator and float start coordinates.
\<close>

theorem generate_waypoints_blend:
  assumes "float_rounding (rounded rt)" and "rounded rt lat1 = lat1" and "rounded rt lon1 = lon1"
    and "generate_waypoints_on rt distance_fn (lat1, lon1) (lat2, lon2) s = Inr wps"
    and "distance_fn lat1 lon1 lat2 lon2 = Inr d"
    and "py_int (floor_quotient rt d s) = Inr num_points"
  shows "(\<forall>i < length wps.
            0 \<le> rounded rt (real i / of_int num_points)
            \<and> rounded rt (real i / of_int num_points) \<le> 1
            \<and> wps ! i = (blend rt lat1 lat2 (rounded rt (real i / of_int num_points)),
                         blend rt lon1 lon2 (rounded rt (real i / of_int num_points)), 100)
            \<and> min lat1 (blend rt lat1 lat2 1) \<le> fst (wps ! i)
            \<and> fst (wps ! i) \<le> max lat1 (blend rt lat1 lat2 1)
            \<and> min lon1 (blend rt lon1 lon2 1) \<le> fst (snd (wps ! i))
            \<and> fst (snd (wps ! i)) \<le> max lon1 (blend rt lon1 lon2 1))
         \<and> (\<forall>i j. i \<le> j \<and> j < length wps \<longrightarrow>
               rounded rt (real i / of_int num_points) \<le> rounded rt (real j / of_int num_points))
         \<and> (wps \<noteq> [] \<longrightarrow>
               hd wps = (lat1, lon1, 100)
               \<and> last wps = (blend rt lat1 lat2 1, blend rt lon1 lon2 1, 100))"
proof -
  let ?rnd = "rounded rt"
  let ?n = num_points
  have mono: "?rnd x \<le> ?rnd y" if "x \<le> y" for x y
    using assms(1) that by (simp add: float_rounding_def)
  have zero: "?rnd 0 = 0" and one: "?rnd 1 = 1"
    using assms(1) by (simp_all add: float_rounding_def)
  obtain d' n' where d': "distance_fn lat1 lon1 lat2 lon2 = Inr d'"
    and n': "py_int (floor_quotient rt d' s) = Inr n'" and nz': "n' \<noteq> 0"
    and wps': "wps = map (waypoint_at rt lat1 lon1 lat2 lon2 n') [0..n']"
    using assms(4) by (rule generate_waypoints_on_Inr)
  have "d' = d" using d' assms(5) by simp
  then have "n' = ?n" using n' assms(6) by simp
  then have nz: "?n \<noteq> 0" and wps: "wps = map (waypoint_at rt lat1 lon1 lat2 lon2 ?n) [0..?n]"
    using nz' wps' by simp_all
  have len: "length wps = nat (?n + 1)" by (simp add: wps)
  have pos: "0 < ?n" if "i < length wps" for i
    using that nz len by linarith
  have frac: "0 \<le> ?rnd (real i / of_int ?n) \<and> ?rnd (real i / of_int ?n) \<le> 1"
    if i: "i < length wps" for i
  proof -
    have n0: "0 < ?n" using i by (rule pos)
    have le: "int i \<le> ?n" using i len by linarith
    have "0 \<le> real i / of_int ?n" using n0 by simp
    moreover have "real i \<le> of_int ?n" using le by (metis of_int_le_iff of_int_of_nat_eq)
    then have "real i / of_int ?n \<le> 1" using n0 by (simp add: divide_le_eq)
    ultimately show ?thesis using mono [of 0 "real i / of_int ?n"] mono [of "real i / of_int ?n" 1]
      by (simp add: zero one)
  qed
  have point: "wps ! i = (blend rt lat1 lat2 (?rnd (real i / of_int ?n)),
                         blend rt lon1 lon2 (?rnd (real i / of_int ?n)), 100)"
    if i: "i < length wps" for i
  proof -
    have le: "int i \<le> ?n" using i len by linarith
    have idx: "[0..?n] ! i = int i" using le by simp
    show ?thesis using i by (simp add: wps idx waypoint_at_def)
  qed
  have bounds: "min lat1 (blend rt lat1 lat2 1) \<le> fst (wps ! i)
      \<and> fst (wps ! i) \<le> max lat1 (blend rt lat1 lat2 1)
      \<and> min lon1 (blend rt lon1 lon2 1) \<le> fst (snd (wps ! i))
      \<and> fst (snd (wps ! i)) \<le> max lon1 (blend rt lon1 lon2 1)"
    if i: "i < length wps" for i
  proof -
    have f: "0 \<le> ?rnd (real i / of_int ?n)" "?rnd (real i / of_int ?n) \<le> 1"
      using frac [OF i] by simp_all
    show ?thesis
      using blend_between [OF assms(1) assms(2) f, of lat2]
        blend_between [OF assms(1) assms(3) f, of lon2]
      by (simp add: point [OF i])
  qed
  have order: "?rnd (real i / of_int ?n) \<le> ?rnd (real j / of_int ?n)"
    if "i \<le> j" "j < length wps" for i j
  proof -
    have "0 < ?n" using that(2) by (rule pos)
    then have "real i / of_int ?n \<le> real j / of_int ?n"
      using that(1) by (simp add: divide_right_mono)
    then show ?thesis by (rule mono)
  qed
  have ends: "hd wps = (lat1, lon1, 100)
      \<and> last wps = (blend rt lat1 lat2 1, blend rt lon1 lon2 1, 100)" if "wps \<noteq> []"
  proof -
    have "0 < length wps" using that by simp
    then have n0: "0 < ?n" by (rule pos)
    have split_first: "[0..?n] = 0 # [1..?n]" using n0 by (simp add: upto_rec1)
    have split_last: "[0..?n] = [0..?n - 1] @ [?n]" using n0 by (simp add: upto_rec2)
    have "hd wps = (lat1, lon1, 100)"
      using blend_start [OF assms(1) assms(2), of lat2] blend_start [OF assms(1) assms(3), of lon2]
      by (simp add: wps split_first waypoint_at_def zero)
    moreover have "last wps = (blend rt lat1 lat2 1, blend rt lon1 lon2 1, 100)"
      unfolding wps split_last using nz by (simp add: waypoint_at_def one)
    ultimately show ?thesis by simp
  qed
  show ?thesis using frac point bounds order ends by blast
qed

subsection \<open>Concrete flights\<close>

text \<open>
  From \<open>(0, 0)\<close> to \<open>(0, 180)\<close> the distance is \<open>6371000 * pi\<close> metres. With spacing
  6371000 the point count is \<open>floor pi = 3\<close>, so four waypoints are generated.
\<close>

lemma below_float_overflow: "\<bar>x\<bar> < 2 ^ 1023 \<Longrightarrow> \<not> float_overflow \<le> \<bar>x\<bar>"
  by (simp add: float_overflow_def)

lemma ideal_floor_quotient_small:
  "\<bar>d / s\<bar> < 2 ^ 1023 \<Longrightarrow> ideal_floor_quotient d s = Finite (of_int \<lfloor>d / s\<rfloor>)"
  using below_float_overflow [of "d / s"] by (simp add: ideal_floor_quotient_def)

lemma upto_0_3: "[0..3::int] = [0, 1, 2, 3]"
  by (simp add: upto_rec1)

lemma upto_0_1: "[0..1::int] = [0, 1]"
  by (simp add: upto_rec1)

lemma quotient_half_turn: "ideal_floor_quotient (6371000 * pi) 6371000 = Finite 3"
proof -
  have "\<bar>6371000 * pi / 6371000\<bar> < 2 ^ 1023" using pi_less_4 by simp
  then show ?thesis using ideal_floor_quotient_small [of "6371000 * pi" 6371000]
    by (simp add: floor_pi)
qed

lemma generate_waypoints_half_turn:
  "generate_waypoints (0, 0) (0, 180) 6371000
     = Inr [(0, 0, 100), (0, 60, 100), (0, 120, 100), (0, 180, 100)]"
proof -
  have "\<not> float_overflow \<le> \<bar>6371000 * pi / 6371000\<bar>"
    using pi_less_4 by (intro below_float_overflow) simp
  then show ?thesis
    by (simp add: generate_waypoints_eq [OF haversine_distance_half_turn] floor_pi upto_0_3
        waypoint_at_exact)
qed

text \<open>
  Claim C1 as stated fails at a spacing so small that the float quotient overflows:
  the distance of one degree along the equator is at least the spacing
  \<open>1 / 10 ^ 320\<close>, and the call raises OverflowError.
\<close>

theorem generate_waypoints_count_counterexample:
  "generate_waypoints (0, 0) (0, 1) (1 / 10 ^ 320) = Inl OverflowError
   \<and> haversine_distance 0 0 0 1 = Inr (6371000 * pi / 180)
   \<and> (0::real) < 1 / 10 ^ 320 \<and> 1 / 10 ^ 320 \<le> 6371000 * pi / 180"
proof -
  have "float_overflow \<le> 6371000 * 3 / 180 * 10 ^ 320"
    by (simp add: float_overflow_def)
  also have "\<dots> \<le> 6371000 * pi / 180 * 10 ^ 320"
    using pi_ge_three by simp
  finally have over: "float_overflow \<le> \<bar>6371000 * pi / 180 / (1 / 10 ^ 320)\<bar>"
    by simp
  have le: "1 / 10 ^ 320 \<le> 6371000 * pi / 180"
  proof -
    have "(1::real) / 10 ^ 320 \<le> 1" by simp
    also have "\<dots> \<le> 6371000 * 3 / 180" by simp
    also have "\<dots> \<le> 6371000 * pi / 180" using pi_ge_three by simp
    finally show ?thesis .
  qed
  have "generate_waypoints (0, 0) (0, 1) (1 / 10 ^ 320) = Inl OverflowError"
    using over by (simp add: generate_waypoints_eq [OF haversine_distance_one_degree])
  then show ?thesis using le by (simp add: haversine_distance_one_degree)
qed

theorem generate_waypoints_count_witness:
  "(0::real) < 6371000 \<and> haversine_distance 0 0 0 180 = Inr (6371000 * pi)
   \<and> (6371000::real) \<le> 6371000 * pi
   \<and> floor_quotient double_runtime (6371000 * pi) 6371000
       = Finite (of_int \<lfloor>6371000 * pi / 6371000\<rfloor>)
   \<and> (\<exists>wps. generate_waypoints_on double_runtime haversine_distance (0, 0) (0, 180) 6371000
               = Inr wps \<and> int (length wps) = 4)"
proof -
  have s: "(0::real) < 6371000" by simp
  have le: "(6371000::real) \<le> 6371000 * pi" using pi_ge_three by simp
  have q: "floor_quotient double_runtime (6371000 * pi) 6371000
             = Finite (of_int \<lfloor>6371000 * pi / 6371000\<rfloor>)"
    by (simp add: double_runtime_def quotient_half_turn floor_pi)
  show ?thesis
    using generate_waypoints_count
      [where distance_fn = haversine_distance and rt = double_runtime,
        OF s haversine_distance_half_turn le q] s le q
    by (simp add: haversine_distance_half_turn floor_pi)
qed

text \<open>
  Claim C2 as stated fails at spacing 0: start and end coincide, the distance 0 is not
  less than the spacing 0, and the call raises ZeroDivisionError all the same.
\<close>

theorem generate_waypoints_fault_counterexample:
  "generate_waypoints (0, 0) (0, 0) 0 = Inl ZeroDivisionError
   \<and> haversine_distance 0 0 0 0 = Inr 0 \<and> \<not> (0::real) < 0"
  by (simp add: generate_waypoints_eq [OF haversine_distance_origin] haversine_distance_origin)

theorem generate_waypoints_fault_witness:
  "haversine_distance 0 0 0 0 = Inr 0
   \<and> floor_quotient double_runtime 0 1000 = Finite (of_int \<lfloor>0 / 1000\<rfloor>)
   \<and> generate_waypoints_on double_runtime haversine_distance (0, 0) (0, 0) 1000
       = Inl ZeroDivisionError
   \<and> haversine_distance 0 0 0 180 = Inr (6371000 * pi)
   \<and> floor_quotient double_runtime (6371000 * pi) 6371000
       = Finite (of_int \<lfloor>6371000 * pi / 6371000\<rfloor>)
   \<and> (\<exists>wps. generate_waypoints_on double_runtime haversine_distance (0, 0) (0, 180) 6371000
               = Inr wps)
   \<and> floor_quotient double_runtime (6371000 * pi) (- 1)
       = Finite (of_int \<lfloor>6371000 * pi / (- 1)\<rfloor>)
   \<and> (\<exists>wps. generate_waypoints_on double_runtime haversine_distance (0, 0) (0, 180) (- 1)
               = Inr wps)"
proof -
  have q1: "(1000::real) = 0 \<or> floor_quotient double_runtime 0 1000 = Finite (of_int \<lfloor>0 / 1000\<rfloor>)"
    using ideal_floor_quotient_small [of 0 1000] by (simp add: double_runtime_def)
  have q2: "(6371000::real) = 0 \<or> floor_quotient double_runtime (6371000 * pi) 6371000
             = Finite (of_int \<lfloor>6371000 * pi / 6371000\<rfloor>)"
    by (simp add: double_runtime_def quotient_half_turn floor_pi)
  have "\<bar>6371000 * pi / (- 1)\<bar> < 6371000 * 4" using pi_less_4 by simp
  also have "\<dots> < 2 ^ 1023" by simp
  finally have q3: "(- 1::real) = 0 \<or> floor_quotient double_runtime (6371000 * pi) (- 1)
             = Finite (of_int \<lfloor>6371000 * pi / (- 1)\<rfloor>)"
    using ideal_floor_quotient_small [of "6371000 * pi" "- 1"] by (simp add: double_runtime_def)
  have d0: "(0::real) \<le> 0" by simp
  have dh: "(0::real) \<le> 6371000 * pi" by simp
  have nlt: "\<not> 6371000 * pi < (6371000::real)" using pi_ge_three by simp
  show ?thesis
    using generate_waypoints_fault
        [where distance_fn = haversine_distance and rt = double_runtime,
          OF haversine_distance_origin d0 q1]
      generate_waypoints_fault
        [where distance_fn = haversine_distance and rt = double_runtime,
          OF haversine_distance_half_turn dh q2]
      generate_waypoints_fault
        [where distance_fn = haversine_distance and rt = double_runtime,
          OF haversine_distance_half_turn dh q3]
      q1 q2 q3 nlt
    by (simp add: haversine_distance_origin haversine_distance_half_turn)
qed

text \<open>
  Claim C3 as stated fails at a negative spacing: the call returns normally, and the
  returned list is empty, so it has no first and no last waypoint.
\<close>

theorem generate_waypoints_endpoints_counterexample:
  "generate_waypoints (0, 0) (0, 180) (- 1) = Inr []"
proof -
  have "(- (6371000 * pi)) < 0" by simp
  then have neg: "\<lfloor>- (6371000 * pi)\<rfloor> < 0" by (simp only: floor_less_zero)
  then have nz: "\<lfloor>- (6371000 * pi)\<rfloor> \<noteq> 0" by linarith
  have emp: "[0..\<lfloor>- (6371000 * pi)\<rfloor>] = []" using neg by (simp only: upto_empty)
  have "\<bar>6371000 * pi\<bar> < 6371000 * 4" using pi_less_4 by simp
  also have "\<dots> < 2 ^ 1023" by simp
  finally have "\<not> float_overflow \<le> \<bar>6371000 * pi\<bar>" by (rule below_float_overflow)
  then show ?thesis
    by (simp add: generate_waypoints_eq [OF haversine_distance_half_turn] nz emp)
qed

theorem generate_waypoints_endpoints_witness:
  "(0::real) < 6371000
   \<and> generate_waypoints (0, 0) (0, 180) 6371000
       = Inr [(0, 0, 100), (0, 60, 100), (0, 120, 100), (0, 180, 100)]
   \<and> hd [(0::real, 0::real, 100::int), (0, 60, 100), (0, 120, 100), (0, 180, 100)] = (0, 0, 100)
   \<and> last [(0::real, 0::real, 100::int), (0, 60, 100), (0, 120, 100), (0, 180, 100)] = (0, 180, 100)"
proof -
  have s: "(0::real) < 6371000" by simp
  show ?thesis
    using generate_waypoints_endpoints [OF s generate_waypoints_half_turn]
    by (simp add: generate_waypoints_half_turn)
qed

theorem generate_waypoints_altitude_witness:
  "generate_waypoints (0, 0) (0, 180) 6371000
       = Inr [(0, 0, 100), (0, 60, 100), (0, 120, 100), (0, 180, 100)]
   \<and> map (\<lambda>w. snd (snd w)) [(0::real, 0::real, 100::int), (0, 60, 100), (0, 120, 100), (0, 180, 100)]
       = [100, 100, 100, 100]"
  using generate_waypoints_altitude [OF generate_waypoints_half_turn]
  by (simp add: generate_waypoints_half_turn)

lemma round_double_zero: "round_double 0 = 0"
  by (simp add: round_double_def)

lemma blend_double_zero: "blend double_runtime 0 0 f = 0"
  by (simp add: blend_def double_runtime_def round_double_zero)

lemma blend_double_start: "blend double_runtime double_0_7 double_0_1 0 = double_0_7"
  by (simp add: blend_def double_runtime_def round_double_zero round_double_0_7)

lemma quotient_doubles:
  "ideal_floor_quotient (6371000 * (21617278211378379 / 2 ^ 55 * pi / 180)) 50000 = Finite 1"
proof -
  let ?d = "6371000 * (21617278211378379 / 2 ^ 55 * pi / 180)"
  have c: "?d / 50000 = 6371 * 21617278211378379 / (9000 * 2 ^ 55) * pi" by simp
  have lo: "1 \<le> 6371 * 21617278211378379 / (9000 * 2 ^ 55) * (3::real)" by simp
  have hi: "6371 * 21617278211378379 / (9000 * 2 ^ 55) * (4::real) < 2" by simp
  have "6371 * 21617278211378379 / (9000 * 2 ^ 55) * (3::real)
          \<le> 6371 * 21617278211378379 / (9000 * 2 ^ 55) * pi"
    using pi_ge_three by (intro mult_left_mono) simp_all
  then have ge: "1 \<le> ?d / 50000" using lo unfolding c by linarith
  have "6371 * 21617278211378379 / (9000 * 2 ^ 55) * pi
          < 6371 * 21617278211378379 / (9000 * 2 ^ 55) * (4::real)"
    using pi_less_4 by (intro mult_strict_left_mono) simp_all
  then have lt: "?d / 50000 < 2" using hi unfolding c by linarith
  have fl: "\<lfloor>?d / 50000\<rfloor> = 1" using ge lt by (simp only: floor_eq_iff) simp
  have "\<bar>?d / 50000\<bar> < 2" using ge lt by linarith
  also have "\<dots> < (2::real) ^ 1023" by simp
  finally have "ideal_floor_quotient ?d 50000 = Finite (of_int \<lfloor>?d / 50000\<rfloor>)"
    by (rule ideal_floor_quotient_small)
  then show ?thesis by (simp only: fl) simp
qed

lemma generate_waypoints_doubles:
  "generate_waypoints_on double_runtime haversine_distance (double_0_7, 0) (double_0_1, 0) 50000
     = Inr [(double_0_7, 0, 100), (900719925474099 / 2 ^ 53, 0, 100)]"
proof -
  have s: "(50000::real) \<noteq> 0" by simp
  have q: "floor_quotient double_runtime (6371000 * (21617278211378379 / 2 ^ 55 * pi / 180)) 50000
             = Finite (of_int 1)"
    by (simp only: double_runtime_def float_runtime.select_convs quotient_doubles of_int_1)
  have r: "rounded double_runtime = round_double" by (simp add: double_runtime_def)
  show ?thesis
    unfolding generate_waypoints_on_eq
      [where distance_fn = haversine_distance, OF haversine_distance_doubles s q]
    by (simp add: upto_0_1 waypoint_at_def r round_double_zero round_double_one
        blend_double_zero blend_double_start blend_double_end)
qed

text \<open>
  Claim C10 as stated fails in double arithmetic: from latitude 0.7 to latitude 0.1 at
  spacing 50000 the point count is 1, and the last waypoint has the latitude
  0.09999999999999998, below both 0.7 and 0.1.
\<close>

theorem generate_waypoints_blend_counterexample:
  "generate_waypoints_on double_runtime haversine_distance (double_0_7, 0) (double_0_1, 0) 50000
     = Inr [(double_0_7, 0, 100), (900719925474099 / 2 ^ 53, 0, 100)]
   \<and> 900719925474099 / 2 ^ 53 < min double_0_7 double_0_1"
  by (simp add: generate_waypoints_doubles) (simp add: double_0_7_def double_0_1_def)

theorem generate_waypoints_blend_witness:
  "float_rounding (rounded double_runtime)
   \<and> rounded double_runtime double_0_7 = double_0_7 \<and> rounded double_runtime 0 = 0
   \<and> generate_waypoints_on double_runtime haversine_distance (double_0_7, 0) (double_0_1, 0) 50000
       = Inr [(double_0_7, 0, 100), (900719925474099 / 2 ^ 53, 0, 100)]
   \<and> haversine_distance double_0_7 0 double_0_1 0
       = Inr (6371000 * (21617278211378379 / 2 ^ 55 * pi / 180))
   \<and> py_int (floor_quotient double_runtime
         (6371000 * (21617278211378379 / 2 ^ 55 * pi / 180)) 50000) = Inr 1
   \<and> rounded double_runtime (real 1 / of_int 1) \<le> 1
   \<and> [(double_0_7, 0, 100), (900719925474099 / 2 ^ 53, 0, 100)] ! 1
       = (blend double_runtime double_0_7 double_0_1 (rounded double_runtime (real 1 / of_int 1)),
          blend double_runtime 0 0 (rounded double_runtime (real 1 / of_int 1)), 100)
   \<and> min double_0_7 (blend double_runtime double_0_7 double_0_1 1) \<le> 900719925474099 / 2 ^ 53
   \<and> 900719925474099 / 2 ^ 53 \<le> max double_0_7 (blend double_runtime double_0_7 double_0_1 1)
   \<and> rounded double_runtime (real 0 / of_int 1) \<le> rounded double_runtime (real 1 / of_int 1)
   \<and> last [(double_0_7, 0::real, 100::int), (900719925474099 / 2 ^ 53, 0, 100)]
       = (blend double_runtime double_0_7 double_0_1 1, blend double_runtime 0 0 1, 100)"
proof -
  have r: "rounded double_runtime = round_double" by (simp add: double_runtime_def)
  have fr: "float_rounding (rounded double_runtime)" by (simp add: r float_rounding_round_double)
  have a: "rounded double_runtime double_0_7 = double_0_7" by (simp add: r round_double_0_7)
  have z: "rounded double_runtime 0 = 0" by (simp add: r round_double_zero)
  have n: "py_int (floor_quotient double_runtime
             (6371000 * (21617278211378379 / 2 ^ 55 * pi / 180)) 50000) = Inr 1"
    by (simp only: double_runtime_def float_runtime.select_convs quotient_doubles)
      (simp add: py_int_def)
  show ?thesis
    using generate_waypoints_blend
      [where distance_fn = haversine_distance,
        OF fr a z generate_waypoints_doubles haversine_distance_doubles n] fr a z n
    by (simp add: generate_waypoints_doubles haversine_distance_doubles r round_double_zero
        round_double_one blend_double_zero blend_double_end)
qed

section \<open>Properties of the file exporter\<close>

lemma export_loop_eq:
  "export_loop fstr i ws f =
     f @ concat (map (\<lambda>k. waypoint_record fstr (i + k) (ws ! k)) [0..<length ws])"
proof (induction ws arbitrary: i f)
  case Nil
  then show ?case by simp
next
  case (Cons w rest)
  have "[0..<length (w # rest)] = 0 # map Suc [0..<length rest]"
    by (simp add: upt_conv_Cons map_Suc_upt del: upt_Suc)
  then show ?case
    by (simp add: Cons.IH fwrite_def comp_def del: upt_Suc)
qed

lemma export_loop_backup_eq: "export_loop_backup fstr i ws f = export_loop fstr i ws f"
  by (induction ws arbitrary: i f) (simp_all add: Let_def)

lemma waypoint_record_fields:
  "waypoint_record fstr i w = join_tab (record_fields fstr i w) @ [NL]"
  by (cases w) (simp add: waypoint_record_def record_fields_def)

lemma export_text:
  "export_to_missionplanner fstr ws = concat (map (\<lambda>l. l @ [NL]) (mission_lines fstr ws))"
  by (simp add: export_to_missionplanner_def export_loop_eq fwrite_def mission_lines_def
      waypoint_record_fields comp_def)

lemma export_waypoints_text:
  "export_waypoints fstr ws = concat (map (\<lambda>l. l @ [NL]) (mission_lines fstr ws))"
  by (simp add: export_waypoints_def export_loop_backup_eq export_loop_eq fwrite_def
      mission_lines_def waypoint_record_fields comp_def)

lemma file_lines_from_line:
  "NL \<notin> set l \<Longrightarrow> file_lines_from cur (l @ NL # rest) = (cur @ l) # file_lines_from [] rest"
  by (induction l arbitrary: cur) auto

lemma file_lines_concat:
  "\<forall>l \<in> set ls. NL \<notin> set l \<Longrightarrow> file_lines (concat (map (\<lambda>l. l @ [NL]) ls)) = ls"
  unfolding file_lines_def
  by (induction ls) (simp_all add: file_lines_from_line)

lemma digit_not_newline: "k < 10 \<Longrightarrow> ''0123456789'' ! k \<noteq> NL"
proof -
  assume "k < 10"
  then have "''0123456789'' ! k \<in> set ''0123456789''" by (intro nth_mem) simp
  then show ?thesis by auto
qed

lemma str_nat_no_newline: "NL \<notin> set (str_nat n)"
proof (induction n rule: str_nat.induct)
  case (1 n)
  show ?case
  proof (cases "n < 10")
    case True
    then show ?thesis using digit_not_newline [of n] by (subst str_nat.simps) simp
  next
    case False
    have "n mod 10 < 10" by simp
    then have "''0123456789'' ! (n mod 10) \<noteq> NL" by (rule digit_not_newline)
    then show ?thesis using False "1.IH" by (subst str_nat.simps) simp
  qed
qed

lemma str_int_no_newline: "NL \<notin> set (str_int k)"
  by (simp add: str_int_def str_nat_no_newline)

lemma record_no_newline:
  assumes "NL \<notin> set (fstr lat)" "NL \<notin> set (fstr lon)"
  shows "NL \<notin> set (join_tab (record_fields fstr i (lat, lon, alt)))"
  using assms by (simp add: record_fields_def str_nat_no_newline str_int_no_newline)

lemma mission_lines_no_newline:
  assumes "newline_free fstr ws"
  shows "\<forall>l \<in> set (mission_lines fstr ws). NL \<notin> set l"
proof -
  have "NL \<notin> set (join_tab (record_fields fstr i (ws ! i)))" if "i < length ws" for i
  proof -
    obtain lat lon alt where w: "ws ! i = (lat, lon, alt)" by (cases "ws ! i")
    have "ws ! i \<in> set ws" using that by simp
    then have "NL \<notin> set (fstr lat) \<and> NL \<notin> set (fstr lon)"
      using assms w by (auto simp: newline_free_def list_all_iff)
    then show ?thesis unfolding w by (simp add: record_no_newline)
  qed
  then show ?thesis by (auto simp: mission_lines_def)
qed

text \<open>
  Claim C6: for a waypoint list of length \<open>N\<close>, \<open>N = 0\<close> included, each exporter
  writes exactly \<open>N + 1\<close> lines to the file: the header line, followed by one line
  per waypoint, in list order; every line ends with a newline, and an empty list
  gives the header-only file.
\<close>

theorem export_line_count:
  assumes "newline_free fstr waypoints"
  shows "file_lines (export_to_missionplanner fstr waypoints)
           = ''QGC WPL 110''
               # map (\<lambda>i. join_tab (record_fields fstr i (waypoints ! i))) [0..<length waypoints]
         \<and> length (file_lines (export_to_missionplanner fstr waypoints)) = length waypoints + 1
         \<and> export_to_missionplanner fstr waypoints
             = concat (map (\<lambda>l. l @ [NL]) (file_lines (export_to_missionplanner fstr waypoints)))
         \<and> file_lines (export_waypoints fstr waypoints)
             = ''QGC WPL 110''
                 # map (\<lambda>i. join_tab (record_fields fstr i (waypoints ! i))) [0..<length waypoints]
         \<and> length (file_lines (export_waypoints fstr waypoints)) = length waypoints + 1
         \<and> export_waypoints fstr waypoints
             = concat (map (\<lambda>l. l @ [NL]) (file_lines (export_waypoints fstr waypoints)))
         \<and> export_to_missionplanner fstr [] = ''QGC WPL 110'' @ [NL]
         \<and> export_waypoints fstr [] = ''QGC WPL 110'' @ [NL]"
proof -
  let ?lines = "''QGC WPL 110''
      # map (\<lambda>i. join_tab (record_fields fstr i (waypoints ! i))) [0..<length waypoints]"
  have ml: "mission_lines fstr waypoints = ?lines" by (simp add: mission_lines_def)
  have fl: "file_lines (concat (map (\<lambda>l. l @ [NL]) (mission_lines fstr waypoints)))
          = mission_lines fstr waypoints"
    using mission_lines_no_newline [OF assms] by (rule file_lines_concat)
  have day3: "file_lines (export_to_missionplanner fstr waypoints) = ?lines"
    using fl by (simp only: export_text ml)
  have backup: "file_lines (export_waypoints fstr waypoints) = ?lines"
    using fl by (simp only: export_waypoints_text ml)
  have text3: "export_to_missionplanner fstr waypoints = concat (map (\<lambda>l. l @ [NL]) ?lines)"
    by (simp only: export_text ml)
  have textb: "export_waypoints fstr waypoints = concat (map (\<lambda>l. l @ [NL]) ?lines)"
    by (simp only: export_waypoints_text ml)
  have empty3: "export_to_missionplanner fstr [] = ''QGC WPL 110'' @ [NL]"
    by (simp add: export_to_missionplanner_def fwrite_def)
  have emptyb: "export_waypoints fstr [] = ''QGC WPL 110'' @ [NL]"
    by (simp add: export_waypoints_def fwrite_def)
  have len: "length ?lines = length waypoints + 1" by simp
  show ?thesis
    unfolding day3 backup using text3 textb empty3 emptyb len by blast
qed

text \<open>
  Claim C7: the first line of each exporter's output is the literal
  \<^verbatim>\<open>QGC WPL 110\<close>, and the line for the waypoint at list position \<open>i\<close>, counting
  from 0, is the 12 tab-separated fields i, 0, 3, 16, 0, 0, 0, 0, lat, lon, alt, 1; so
  the indices in the file are consecutive from 0 in list order.
\<close>

theorem export_file_format:
  assumes "newline_free fstr waypoints"
  shows "file_lines (export_to_missionplanner fstr waypoints) = mission_lines fstr waypoints
         \<and> file_lines (export_waypoints fstr waypoints) = mission_lines fstr waypoints"
  using file_lines_concat [OF mission_lines_no_newline [OF assms]]
  by (simp add: export_text export_waypoints_text)

subsection \<open>A concrete mission file\<close>

lemma str_nat_examples:
  "str_nat 0 = ''0''" "str_nat 1 = ''1''" "str_nat (Suc 0) = ''1''" "str_nat 100 = ''100''"
  by (simp_all add: str_nat.simps)

lemma str_int_100: "str_int 100 = ''100''"
  by (simp add: str_int_def str_nat_examples)

lemma mission_lines_example:
  "mission_lines (\<lambda>x. if x = 0 then ''0.0'' else ''1.0'') [(0, 0, 100), (0, 1, 100)]
     = [''QGC WPL 110'',
        join_tab [''0'', ''0'', ''3'', ''16'', ''0'', ''0'', ''0'', ''0'', ''0.0'', ''0.0'', ''100'', ''1''],
        join_tab [''1'', ''0'', ''3'', ''16'', ''0'', ''0'', ''0'', ''0'', ''0.0'', ''1.0'', ''100'', ''1'']]"
  by (simp add: mission_lines_def record_fields_def str_nat_examples str_int_100 upt_rec [of 0])

theorem export_line_count_witness:
  "newline_free (\<lambda>x. if x = 0 then ''0.0'' else ''1.0'') [(0, 0, 100), (0, 1, 100)]
   \<and> file_lines (export_to_missionplanner (\<lambda>x. if x = 0 then ''0.0'' else ''1.0'')
         [(0, 0, 100), (0, 1, 100)])
       = [''QGC WPL 110'',
          join_tab [''0'', ''0'', ''3'', ''16'', ''0'', ''0'', ''0'', ''0'', ''0.0'', ''0.0'', ''100'', ''1''],
          join_tab [''1'', ''0'', ''3'', ''16'', ''0'', ''0'', ''0'', ''0'', ''0.0'', ''1.0'', ''100'', ''1'']]
   \<and> length (file_lines (export_to_missionplanner (\<lambda>x. if x = 0 then ''0.0'' else ''1.0'')
         [(0, 0, 100), (0, 1, 100)])) = 3
   \<and> length (file_lines (export_waypoints (\<lambda>x. if x = 0 then ''0.0'' else ''1.0'')
         [(0, 0, 100), (0, 1, 100)])) = 3
   \<and> newline_free (\<lambda>x. ''0.0'') []
   \<and> file_lines (export_to_missionplanner (\<lambda>x. ''0.0'') []) = [''QGC WPL 110'']
   \<and> file_lines (export_waypoints (\<lambda>x. ''0.0'') []) = [''QGC WPL 110'']
   \<and> export_to_missionplanner (\<lambda>x. ''0.0'') [] = ''QGC WPL 110'' @ [NL]"
proof -
  let ?f = "\<lambda>x::real. if x = 0 then ''0.0'' else ''1.0''"
  let ?ws = "[(0, 0, 100), (0, 1, 100)] :: waypoint list"
  have a: "newline_free ?f ?ws" by (simp add: newline_free_def)
  have b: "newline_free (\<lambda>x. ''0.0'') []" by (simp add: newline_free_def)
  have lines: "''QGC WPL 110'' # map (\<lambda>i. join_tab (record_fields ?f i (?ws ! i))) [0..<length ?ws]
      = [''QGC WPL 110'',
         join_tab [''0'', ''0'', ''3'', ''16'', ''0'', ''0'', ''0'', ''0'', ''0.0'', ''0.0'', ''100'', ''1''],
         join_tab [''1'', ''0'', ''3'', ''16'', ''0'', ''0'', ''0'', ''0'', ''0.0'', ''1.0'', ''100'', ''1'']]"
    using mission_lines_example by (simp only: mission_lines_def)
  have two: "file_lines (export_to_missionplanner ?f ?ws)
      = ''QGC WPL 110'' # map (\<lambda>i. join_tab (record_fields ?f i (?ws ! i))) [0..<length ?ws]"
    and len3: "length (file_lines (export_to_missionplanner ?f ?ws)) = length ?ws + 1"
    and lenb: "length (file_lines (export_waypoints ?f ?ws)) = length ?ws + 1"
    using export_line_count [OF a] by blast+
  have none: "file_lines (export_to_missionplanner (\<lambda>x. ''0.0'') [])
      = ''QGC WPL 110'' # map (\<lambda>i. join_tab (record_fields (\<lambda>x. ''0.0'') i ([] ! i))) [0..<length ([] :: waypoint list)]"
    and noneb: "file_lines (export_waypoints (\<lambda>x. ''0.0'') [])
      = ''QGC WPL 110'' # map (\<lambda>i. join_tab (record_fields (\<lambda>x. ''0.0'') i ([] ! i))) [0..<length ([] :: waypoint list)]"
    and text0: "export_to_missionplanner (\<lambda>x. ''0.0'') [] = ''QGC WPL 110'' @ [NL]"
    using export_line_count [OF b] by blast+
  show ?thesis
    using a b two [unfolded lines] len3 lenb none noneb text0 by simp
qed

theorem export_file_format_witness:
  "newline_free (\<lambda>x. if x = 0 then ''0.0'' else ''1.0'') [(0, 0, 100), (0, 1, 100)]
   \<and> file_lines (export_to_missionplanner (\<lambda>x. if x = 0 then ''0.0'' else ''1.0'')
         [(0, 0, 100), (0, 1, 100)])
       = [''QGC WPL 110'',
          join_tab [''0'', ''0'', ''3'', ''16'', ''0'', ''0'', ''0'', ''0'', ''0.0'', ''0.0'', ''100'', ''1''],
          join_tab [''1'', ''0'', ''3'', ''16'', ''0'', ''0'', ''0'', ''0'', ''0.0'', ''1.0'', ''100'', ''1'']]
   \<and> file_lines (export_waypoints (\<lambda>x. if x = 0 then ''0.0'' else ''1.0'')
         [(0, 0, 100), (0, 1, 100)])
       = [''QGC WPL 110'',
          join_tab [''0'', ''0'', ''3'', ''16'', ''0'', ''0'', ''0'', ''0'', ''0.0'', ''0.0'', ''100'', ''1''],
          join_tab [''1'', ''0'', ''3'', ''16'', ''0'', ''0'', ''0'', ''0'', ''0.0'', ''1.0'', ''100'', ''1'']]"
proof -
  have a: "newline_free (\<lambda>x. if x = 0 then ''0.0'' else ''1.0'') [(0, 0, 100), (0, 1, 100)]"
    by (simp add: newline_free_def)
  show ?thesis
    using export_file_format [OF a] a by (simp only: mission_lines_example simp_thms)
qed

end
